theory Spec2Isabelle
  imports Main "HOL-Library.Stream" "HOL-Library.List_Lexorder" "HOL-Library.Char_ord"
begin

section \<open>Python values, exceptions and library calls\<close>

text \<open>
  The exceptions the modelled code can raise. The spec's taxonomy names
  \<open>ValueError\<close> as InvalidInput and \<open>KeyError\<close> as NotFound. \<open>IllTyped\<close> is not a
  Python exception: it marks a document value whose JSON type is not the one the dataclass
  annotation of the receiving field has (Python would store the value unchecked); such
  documents are outside this development.
\<close>

datatype error = ValueError | KeyError | IndexError | TypeError | IllTyped

text \<open>
  JSON-like values: what \<open>json.loads\<close> yields and what \<open>meta\<close> holds
  (floating-point numbers are left out). A dict is a map from keys to values.
\<close>

datatype json =
    JNull
  | JBool bool
  | JInt int
  | JStr string
  | JArr "json list"
  | JObj "string \<Rightarrow> json option"

text \<open>Results of fallible code: \<open>Inl\<close> is the raised exception.\<close>

definition bind_sum :: "error + 'a \<Rightarrow> ('a \<Rightarrow> error + 'b) \<Rightarrow> error + 'b" where
  "bind_sum m f = (case m of Inl e \<Rightarrow> Inl e | Inr a \<Rightarrow> f a)"

text \<open>
  Results of code that may also loop forever: \<open>None\<close> is "does not return",
  \<open>Some (Inl e)\<close> a raised exception, \<open>Some (Inr v)\<close> a returned value.
\<close>

definition bind_res :: "(error + 'a) option \<Rightarrow> ('a \<Rightarrow> (error + 'b) option) \<Rightarrow> (error + 'b) option" where
  "bind_res m f = (case m of None \<Rightarrow> None | Some (Inl e) \<Rightarrow> Some (Inl e) | Some (Inr a) \<Rightarrow> f a)"

text \<open>A list comprehension whose element expression can raise: the first exception wins.\<close>

fun map_sum_list :: "('a \<Rightarrow> error + 'b) \<Rightarrow> 'a list \<Rightarrow> error + 'b list" where
  "map_sum_list f [] = Inr []"
| "map_sum_list f (x # xs) =
     bind_sum (f x) (\<lambda>y. bind_sum (map_sum_list f xs) (\<lambda>ys. Inr (y # ys)))"

text \<open>\<open>xs[i]\<close>: a negative index counts from the end, an index out of range raises.\<close>

definition py_index :: "'a list \<Rightarrow> int \<Rightarrow> error + 'a" where
  "py_index xs i =
     (if 0 \<le> i \<and> i < int (length xs) then Inr (xs ! nat i)
      else if i < 0 \<and> - int (length xs) \<le> i then Inr (xs ! nat (int (length xs) + i))
      else Inl IndexError)"

text \<open>\<open>str(n)\<close> for an integer.\<close>

definition decimal_digits :: string where
  "decimal_digits = ''0123456789''"

fun str_of_nat :: "nat \<Rightarrow> string" where
  "str_of_nat n =
     (if n < 10 then [decimal_digits ! n]
      else str_of_nat (n div 10) @ [decimal_digits ! (n mod 10)])"

declare str_of_nat.simps [simp del]

definition str_of_int :: "int \<Rightarrow> string" where
  "str_of_int i = (if i < 0 then CHR ''-'' # str_of_nat (nat (- i)) else str_of_nat (nat i))"

text \<open>
  \<open>str.lower()\<close> on ASCII letters and \<open>str.replace("-", "_")\<close>. Strings are byte
  sequences (UTF-8); bytes outside \<open>A\<close>-\<open>Z\<close> are left as they are.
\<close>

definition lower_char :: "char \<Rightarrow> char" where
  "lower_char c =
     (case map_of (zip ''ABCDEFGHIJKLMNOPQRSTUVWXYZ'' ''abcdefghijklmnopqrstuvwxyz'') c of
        None \<Rightarrow> c | Some l \<Rightarrow> l)"

definition lower :: "string \<Rightarrow> string" where
  "lower s = map lower_char s"

definition replace_hyphens :: "string \<Rightarrow> string" where
  "replace_hyphens s = map (\<lambda>c. if c = CHR ''-'' then CHR ''_'' else c) s"

text \<open>
  \<open>template.format(**kw)\<close> for templates whose replacement fields are plain keyword
  names, as all note templates of the themes are: \<open>{{\<close> and \<open>}}\<close> are escapes, a field
  that is not a keyword raises KeyError, an unmatched brace raises ValueError. The second
  argument is the field name read so far (\<open>None\<close> outside a field).
\<close>

fun py_format :: "(string \<Rightarrow> string option) \<Rightarrow> string option \<Rightarrow> string \<Rightarrow> error + string" where
  "py_format kw None [] = Inr []"
| "py_format kw (Some f) [] = Inl ValueError"
| "py_format kw None [c] =
     (if c = CHR ''{'' \<or> c = CHR ''}'' then Inl ValueError else Inr [c])"
| "py_format kw None (c # d # cs) =
     (if c = CHR ''{'' then
        (if d = CHR ''{'' then bind_sum (py_format kw None cs) (\<lambda>out. Inr (c # out))
         else py_format kw (Some []) (d # cs))
      else if c = CHR ''}'' then
        (if d = CHR ''}'' then bind_sum (py_format kw None cs) (\<lambda>out. Inr (c # out))
         else Inl ValueError)
      else bind_sum (py_format kw None (d # cs)) (\<lambda>out. Inr (c # out)))"
| "py_format kw (Some f) (c # cs) =
     (if c = CHR ''}'' then
        (case kw f of
           None \<Rightarrow> Inl KeyError
         | Some v \<Rightarrow> bind_sum (py_format kw None cs) (\<lambda>out. Inr (v @ out)))
      else py_format kw (Some (f @ [c])) cs)"

text \<open>
  The pseudo-random generator is the stream of its raw draws. \<open>rng.choice(seq)\<close>
  takes one draw and reduces it to an index (IndexError on an empty sequence);
  \<open>rng.random() < 0.55\<close> takes one draw and yields the outcome of the comparison
  (the floating-point value itself is not modelled). Every sequence of outcomes is the
  behaviour of some stream.
\<close>

type_synonym rng = "nat stream"

definition choice :: "rng \<Rightarrow> 'a list \<Rightarrow> error + 'a \<times> rng" where
  "choice r seq = (if seq = [] then Inl IndexError else Inr (seq ! (shd r mod length seq), stl r))"

definition random_below_055 :: "rng \<Rightarrow> bool \<times> rng" where
  "random_below_055 r = (shd r mod 100 < 55, stl r)"

text \<open>
  What a call reads from outside the program: the stream \<open>random.Random(None)\<close> seeds
  from the operating system, and the clock read by \<open>datetime.utcnow()\<close>.
\<close>

record 'dt env =
  entropy :: rng
  utcnow :: 'dt

text \<open>
  The library functions the serializer calls, taken as parameters:
  \<open>datetime.isoformat\<close>, \<open>datetime.fromisoformat\<close> (\<open>None\<close>: ValueError) and
  \<open>int\<close> applied to a string (\<open>None\<close>: ValueError).
\<close>

record 'dt pylib =
  isoformat :: "'dt \<Rightarrow> string"
  fromisoformat :: "string \<Rightarrow> 'dt option"
  int_of_str :: "string \<Rightarrow> int option"

section \<open>model.py\<close>

record team =
  name :: string
  location :: string
  inspiration :: string
  "notes" :: "string option"

record division =
  level :: int
  name :: string
  short_name :: "string option"
  teams :: "team list"

record 'dt pyramid =
  title :: string
  description :: string
  divisions :: "division list"
  meta :: "string \<Rightarrow> json option"
  generated_at :: "'dt option"

text \<open>
  \<open>Pyramid.sort\<close>: \<open>list.sort(key=...)\<close> is a stable sort, as \<open>sort_key\<close> is;
  strings compare lexicographically by code point, which on UTF-8 bytes is the
  lexicographic order of the bytes.
\<close>

definition Pyramid_sort :: "'dt pyramid \<Rightarrow> 'dt pyramid" where
  "Pyramid_sort p =
     p\<lparr>divisions :=
         map (\<lambda>d. d\<lparr>teams := sort_key team.name (teams d)\<rparr>)
             (sort_key level (divisions p))\<rparr>"

section \<open>data.py\<close>

record theme =
  key :: string
  region_name :: string
  short_prefix :: string
  premier_title :: string
  championship_title :: string
  lower_division_title :: string
  highlight :: string
  locations :: "string list"
  mascots :: "string list"
  adjectives :: "string list"
  inspirations :: "string list"
  notes_templates :: "string list"

definition theme_eorzea :: theme where
  "theme_eorzea = \<lparr>
     key = ''eorzea'',
     region_name = ''Eorzean'',
     short_prefix = ''EFL'',
     premier_title = ''Eorzean Premier League'',
     championship_title = ''Grand Company Championship'',
     lower_division_title = ''City-State Division'',
     highlight = ''The heart of the realm where Gridania, Limsa Lominsa, Ul'dah, and Ishgard compete.'',
     locations =
       [''Gridania'',
        ''Limsa Lominsa'',
        ''Ul'dah'',
        ''Ishgard'',
        ''Sharlayan'',
        ''Radz-at-Han'',
        ''Mor Dhona'',
        ''La Noscea'',
        ''Coerthas'',
        ''Thanalan'',
        ''The Dravanian Forelands'',
        ''Lakeland'',
        ''Thavnair'',
        ''Old Sharlayan'',
        ''Labyrinthos'',
        ''Kugane'',
        ''Idyllshire'',
        ''Garlemald Reclaimed'',
        ''The Crystarium'',
        ''Old Gridania''],
     mascots =
       [''Scions'',
        ''Seedseers'',
        ''Maelstrom'',
        ''Immortals'',
        ''Temple Knights'',
        ''Astrologians'',
        ''Nald'thal'',
        ''Azure Drakes'',
        ''Carbuncle'',
        ''Chocobos'',
        ''Free Paladins'',
        ''Gobwalkers'',
        ''Sky Pirates'',
        ''Radiant Dawn'',
        ''House Fortemps'',
        ''Conjurers'',
        ''Adders'',
        ''Flames'',
        ''Blades'',
        ''Dragoons''],
     adjectives =
       [''Twin'',
        ''Rising'',
        ''Mythril'',
        ''Heavensward'',
        ''Stormborn'',
        ''Starlit'',
        ''Ruby'',
        ''Umbral'',
        ''Astral'',
        ''Azure'',
        ''Verdant'',
        ''Gilded'',
        ''Crystalline'',
        ''Eternal'',
        ''Radiant''],
     inspirations =
       [''Scions of the Seventh Dawn'',
        ''Order of the Twin Adder'',
        ''Immortal Flames'',
        ''Maelstrom'',
        ''Temple Knights'',
        ''Ishgardian Restoration'',
        ''Crystarium Guard'',
        ''Students of Baldesion'',
        ''Radz-at-Han alchemists'',
        ''Sharlayan Forum'',
        ''Bozjan Resistance''],
     notes_templates =
       [''Backed by the {inspiration} from {location}.'',
        ''Founded by veterans of the {inspiration}.'',
        ''Club culture steeped in {inspiration} tradition.'',
        ''Hails from {location} with {inspiration} influence.'']\<rparr>"

definition theme_far_east :: theme where
  "theme_far_east = \<lparr>
     key = ''far_east'',
     region_name = ''Far Eastern'',
     short_prefix = ''FEF'',
     premier_title = ''Kugane Premier Division'',
     championship_title = ''Hingan Championship'',
     lower_division_title = ''Eastern League'',
     highlight = ''The trading ports of Kugane, the rebel lands of Doma, and the wandering Steppe tribes collide.'',
     locations =
       [''Kugane'',
        ''Doma'',
        ''Yanxia'',
        ''The Azim Steppe'',
        ''Hingashi'',
        ''Sui-no-Sato'',
        ''The Ruby Sea'',
        ''Isari'',
        ''Namai'',
        ''Tsurumi'',
        ''Shisui of the Violet Tides'',
        ''Reunion'',
        ''Tamamizu'',
        ''Shirogane'',
        ''Onokoro'',
        ''Seigetsu''],
     mascots =
       [''Sekiseigumi'',
        ''Raen'',
        ''Xaela'',
        ''Ruby Ronin'',
        ''Steppe Riders'',
        ''Doman Clans'',
        ''Geiko'',
        ''Raijin'',
        ''Komainu'',
        ''Crimson Lancers'',
        ''Blue Oni'',
        ''Sea Wolves'',
        ''Tengu'',
        ''Moonlit Ronin'',
        ''Skyfarers''],
     adjectives =
       [''Blossom'',
        ''Moonlit'',
        ''Stormjade'',
        ''Tempest'',
        ''Crimson'',
        ''Azure'',
        ''Sakura'',
        ''Silver'',
        ''Verdant'',
        ''Dragon''],
     inspirations =
       [''Sekiseigumi'',
        ''House of the Fierce'',
        ''Confederacy'',
        ''Doman Liberation Front'',
        ''Mol Warriors'',
        ''Seiryu Temple'',
        ''Tales of the Ruby Princess''],
     notes_templates =
       [''Backed by the {inspiration} from {location}.'',
        ''Combines tactics from the {inspiration} with Far Eastern flair.'',
        ''Favoured by sailors of the {inspiration}.'']\<rparr>"

definition theme_garlemald :: theme where
  "theme_garlemald = \<lparr>
     key = ''garlemald'',
     region_name = ''Imperial'',
     short_prefix = ''IGL'',
     premier_title = ''Imperial Supremacy League'',
     championship_title = ''Praetoriate Championship'',
     lower_division_title = ''Legion Divisions'',
     highlight = ''Reformed Garlean legions and liberated provinces contest the imperial title.'',
     locations =
       [''Garlemald'',
        ''Bozja'',
        ''Werlyt'',
        ''Dalmasca'',
        ''Ala Mhigo'',
        ''Terncliff'',
        ''Paglth'an'',
        ''Corvos'',
        ''Iskaal'',
        ''Locus Amoenus'',
        ''Porta Praetoria'',
        ''Tertium'',
        ''Zadnor''],
     mascots =
       [''Magitek'',
        ''Legati'',
        ''Centurions'',
        ''Ceruleum'',
        ''Gunblades'',
        ''Dreadnaughts'',
        ''Praetorians'',
        ''Machina'',
        ''Imperial Fangs'',
        ''Ala Mhigan Shields'',
        ''Resistance''],
     adjectives =
       [''Adamant'',
        ''Iron'',
        ''Cerulean'',
        ''Imperial'',
        ''Reborn'',
        ''Resolute'',
        ''Steel'',
        ''Vanguard''],
     inspirations =
       [''IVth Legion'',
        ''Bozjan Resistance'',
        ''Werlyt Rebellion'',
        ''Dalmascan Royalists'',
        ''Ala Mhigan Monks'',
        ''Corvos Insurgents''],
     notes_templates =
       [''Former {inspiration} unit now focused on footballing glory.'',
        ''Uses magitek support from {location}.'',
        ''Celebrates {inspiration} heritage in every match.'']\<rparr>"

definition THEMES :: "(string \<times> theme) list" where
  "THEMES = [(''eorzea'', theme_eorzea), (''far_east'', theme_far_east), (''garlemald'', theme_garlemald)]"

definition get_theme :: "string \<Rightarrow> error + theme" where
  "get_theme k =
     (let lowered = replace_hyphens (lower k)
      in case map_of THEMES lowered of
           None \<Rightarrow> Inl KeyError
         | Some t \<Rightarrow> Inr t)"

section \<open>generator.py\<close>

definition EXTRA_TEAM_SUFFIXES :: "string list" where
  "EXTRA_TEAM_SUFFIXES =
     [''FC'', ''United'', ''Wanderers'', ''Rovers'', ''Dynasts'', ''Guard'', ''Club'']"

definition numerals :: "(int \<times> string) list" where
  "numerals =
     [(1000, ''M''), (900, ''CM''), (500, ''D''), (400, ''CD''), (100, ''C''), (90, ''XC''),
      (50, ''L''), (40, ''XL''), (10, ''X''), (9, ''IX''), (5, ''V''), (4, ''IV''), (1, ''I'')]"

text \<open>
  The two nested loops of \<open>_roman\<close>: \<open>i\<close> is the position of the \<open>for\<close> loop in
  \<open>numerals\<close>; a step either runs the body of the inner \<open>while\<close> once or moves on to the
  next numeral.
\<close>

function roman_loop :: "nat \<Rightarrow> int \<Rightarrow> string list \<Rightarrow> string list" where
  "roman_loop i remaining result =
     (if i < length numerals then
        (if fst (numerals ! i) \<le> remaining
         then roman_loop i (remaining - fst (numerals ! i)) (result @ [snd (numerals ! i)])
         else roman_loop (Suc i) remaining result)
      else result)"
  by pat_completeness auto
termination
proof (relation "measures [\<lambda>(i, remaining, result). length numerals - i,
                           \<lambda>(i, remaining, result). nat remaining]")
  show "wf (measures [\<lambda>(i, remaining, result). length numerals - i,
                      \<lambda>(i, remaining, result). nat remaining])"
    by simp
next
  fix i :: nat and remaining :: int and result :: "string list"
  assume "i < length numerals" and "fst (numerals ! i) \<le> remaining"
  moreover have "\<forall>v \<in> set numerals. 0 < fst v"
    by (simp add: numerals_def)
  ultimately have "0 < fst (numerals ! i)" and "fst (numerals ! i) \<le> remaining"
    using nth_mem by blast+
  then show "((i, remaining - fst (numerals ! i), result @ [snd (numerals ! i)]), (i, remaining, result))
        \<in> measures [\<lambda>(i, remaining, result). length numerals - i,
                     \<lambda>(i, remaining, result). nat remaining]"
    by simp
next
  fix i :: nat and remaining :: int and result :: "string list"
  assume "i < length numerals"
  then show "((Suc i, remaining, result), (i, remaining, result))
        \<in> measures [\<lambda>(i, remaining, result). length numerals - i,
                     \<lambda>(i, remaining, result). nat remaining]"
    by simp
qed

declare roman_loop.simps [simp del]

definition roman :: "int \<Rightarrow> string" where
  "roman number =
     (let result = roman_loop 0 number []
      in if result \<noteq> [] then concat result else ''I'')"

definition division_name :: "theme \<Rightarrow> int \<Rightarrow> int \<Rightarrow> string list option \<Rightarrow> error + string" where
  "division_name th lvl total_levels custom =
     (if (case custom of None \<Rightarrow> False | Some cs \<Rightarrow> cs \<noteq> [] \<and> lvl \<le> int (length cs))
      then py_index (the custom) (lvl - 1)
      else if lvl = 1 then Inr (premier_title th)
      else if lvl = 2 then Inr (championship_title th)
      else Inr (region_name th @ '' '' @ lower_division_title th @ '' '' @ roman (lvl - 2)))"

definition short_name_of :: "theme \<Rightarrow> int \<Rightarrow> string" where
  "short_name_of th lvl = short_prefix th @ '' L'' @ str_of_int lvl"

text \<open>
  The \<open>while name in used_names\<close> loop of \<open>_build_team\<close>; its state is the candidate
  name and the generator. Nothing bounds the number of rounds.
\<close>

partial_function (option) build_team_while ::
  "string \<Rightarrow> string set \<Rightarrow> string \<Rightarrow> rng \<Rightarrow> (error + string \<times> rng) option" where
  "build_team_while base_name used_names nm r =
     (if nm \<in> used_names then
        (case choice r EXTRA_TEAM_SUFFIXES of
           Inl e \<Rightarrow> Some (Inl e)
         | Inr (suffix, r') \<Rightarrow> build_team_while base_name used_names (base_name @ '' '' @ suffix) r')
      else Some (Inr (nm, r)))"

text \<open>\<open>_build_team\<close> returns the team, and also the generator and the set it has updated.\<close>

definition build_team :: "theme \<Rightarrow> rng \<Rightarrow> string set \<Rightarrow> (error + team \<times> rng \<times> string set) option" where
  "build_team th r0 used_names =
     bind_res (Some (choice r0 (locations th))) (\<lambda>(loc, r1).
     bind_res (Some (choice r1 (mascots th))) (\<lambda>(mascot, r2).
     bind_res (Some (choice r2 (adjectives th))) (\<lambda>(adjective, r3).
     (case random_below_055 r3 of (below, r4) \<Rightarrow>
        (let base_name = (if below then loc @ '' '' @ mascot
                          else loc @ '' '' @ adjective @ '' '' @ mascot)
         in bind_res (build_team_while base_name used_names base_name r4) (\<lambda>(nm, r5).
            bind_res (Some (choice r5 (inspirations th))) (\<lambda>(insp, r6).
            bind_res (Some (choice r6 (notes_templates th))) (\<lambda>(notes_template, r7).
            bind_res (Some (py_format [''inspiration'' \<mapsto> insp, ''location'' \<mapsto> loc] None notes_template))
              (\<lambda>rendered.
                 Some (Inr (\<lparr>team.name = nm, location = loc, inspiration = insp, notes = Some rendered\<rparr>,
                            r7, insert nm used_names)))))))))))"

text \<open>The comprehension \<open>[_build_team(...) for _ in range(team_count)]\<close>.\<close>

primrec build_teams :: "theme \<Rightarrow> nat \<Rightarrow> rng \<Rightarrow> string set \<Rightarrow> (error + team list \<times> rng \<times> string set) option" where
  "build_teams th 0 r used_names = Some (Inr ([], r, used_names))"
| "build_teams th (Suc n) r used_names =
     bind_res (build_team th r used_names) (\<lambda>(t, r', used').
     bind_res (build_teams th n r' used') (\<lambda>(ts, r'', used'').
     Some (Inr (t # ts, r'', used''))))"

definition build_division ::
  "theme \<Rightarrow> int \<Rightarrow> int \<Rightarrow> int \<Rightarrow> rng \<Rightarrow> string set \<Rightarrow> string list option
     \<Rightarrow> (error + division \<times> rng \<times> string set) option" where
  "build_division th lvl team_count total_levels r used_names custom_names =
     bind_res (Some (division_name th lvl total_levels custom_names)) (\<lambda>nm.
     bind_res (build_teams th (nat team_count) r used_names) (\<lambda>(ts, r', used').
     Some (Inr (\<lparr>level = lvl, division.name = nm, short_name = Some (short_name_of th lvl), teams = ts\<rparr>,
                r', used'))))"

text \<open>The loop \<open>for idx, team_count in enumerate(level_sizes, start=1)\<close>, from \<open>idx\<close> on.\<close>

fun build_divisions ::
  "theme \<Rightarrow> int \<Rightarrow> string list option \<Rightarrow> int \<Rightarrow> int list \<Rightarrow> rng \<Rightarrow> string set
     \<Rightarrow> (error + division list) option" where
  "build_divisions th total_levels custom idx [] r used_names = Some (Inr [])"
| "build_divisions th total_levels custom idx (team_count # rest) r used_names =
     bind_res (build_division th idx team_count total_levels r used_names custom) (\<lambda>(d, r', used').
     bind_res (build_divisions th total_levels custom (idx + 1) rest r' used') (\<lambda>ds.
     Some (Inr (d # ds))))"

text \<open>
  \<open>generate_pyramid\<close>. \<open>prng\<close> is \<open>random.Random\<close> on an integer seed; the keyword
  arguments are passed in the order of the signature.
\<close>

definition generate_pyramid ::
  "(int \<Rightarrow> rng) \<Rightarrow> 'dt env \<Rightarrow> int list \<Rightarrow> string \<Rightarrow> int option \<Rightarrow> string option \<Rightarrow> string option
     \<Rightarrow> string list option \<Rightarrow> (string \<Rightarrow> json option) option \<Rightarrow> (error + 'dt pyramid) option" where
  "generate_pyramid prng E level_sizes theme_key seed title_arg description_arg
       custom_division_names extra_meta =
     (if level_sizes = [] then Some (Inl ValueError)
      else
        bind_res (Some (get_theme theme_key)) (\<lambda>theme_obj.
        (let r = (case seed of None \<Rightarrow> entropy E | Some s \<Rightarrow> prng s);
             total_levels = int (length level_sizes)
         in bind_res (build_divisions theme_obj total_levels custom_division_names 1 level_sizes r {})
              (\<lambda>divs.
          (let pyramid_title =
                 (case title_arg of
                    None \<Rightarrow> region_name theme_obj @ '' Football Pyramid''
                  | Some t \<Rightarrow> if t = [] then region_name theme_obj @ '' Football Pyramid'' else t);
               pyramid_description =
                 (case description_arg of
                    None \<Rightarrow> highlight theme_obj
                  | Some d \<Rightarrow> if d = [] then highlight theme_obj else d);
               meta0 = [''theme'' \<mapsto> JStr (key theme_obj),
                        ''seed'' \<mapsto> (case seed of None \<Rightarrow> JNull | Some s \<Rightarrow> JInt s),
                        ''levels'' \<mapsto> JArr (map JInt level_sizes),
                        ''short_prefix'' \<mapsto> JStr (short_prefix theme_obj),
                        ''generated_using'' \<mapsto> JStr ''ffxiv_pyramid''];
               meta1 = (case custom_division_names of
                          None \<Rightarrow> meta0
                        | Some cs \<Rightarrow>
                            if cs = [] then meta0
                            else meta0(''custom_division_names'' \<mapsto> JArr (map JStr cs)));
               meta2 = (case extra_meta of
                          None \<Rightarrow> meta1
                        | Some x \<Rightarrow> if x = Map.empty then meta1 else meta1 ++ x)
           in Some (Inr (Pyramid_sort
                \<lparr>title = pyramid_title, description = pyramid_description, divisions = divs,
                 meta = meta2, generated_at = Some (utcnow E)\<rparr>)))))))"

section \<open>io.py\<close>

definition team_to_dict :: "team \<Rightarrow> json" where
  "team_to_dict t =
     JObj [''name'' \<mapsto> JStr (team.name t),
           ''location'' \<mapsto> JStr (location t),
           ''inspiration'' \<mapsto> JStr (inspiration t),
           ''notes'' \<mapsto> (case notes t of None \<Rightarrow> JNull | Some n \<Rightarrow> JStr n)]"

definition division_to_dict :: "division \<Rightarrow> json" where
  "division_to_dict d =
     JObj [''level'' \<mapsto> JInt (level d),
           ''name'' \<mapsto> JStr (division.name d),
           ''short_name'' \<mapsto> (case short_name d of None \<Rightarrow> JNull | Some n \<Rightarrow> JStr n),
           ''teams'' \<mapsto> JArr (map team_to_dict (teams d))]"

definition pyramid_to_dict :: "'dt pylib \<Rightarrow> 'dt pyramid \<Rightarrow> (string \<Rightarrow> json option)" where
  "pyramid_to_dict lib p =
     [''title'' \<mapsto> JStr (title p),
      ''description'' \<mapsto> JStr (description p),
      ''generated_at'' \<mapsto> (case generated_at p of None \<Rightarrow> JNull | Some t \<Rightarrow> JStr (isoformat lib t)),
      ''meta'' \<mapsto> JObj (meta p),
      ''divisions'' \<mapsto> JArr (map division_to_dict (divisions p))]"

text \<open>Reading a document value into a field of the annotated type.\<close>

definition as_str :: "json \<Rightarrow> error + string" where
  "as_str v = (case v of JStr s \<Rightarrow> Inr s | _ \<Rightarrow> Inl IllTyped)"

definition as_opt_str :: "json \<Rightarrow> error + string option" where
  "as_opt_str v = (case v of JNull \<Rightarrow> Inr None | JStr s \<Rightarrow> Inr (Some s) | _ \<Rightarrow> Inl IllTyped)"

definition as_list :: "json \<Rightarrow> error + json list" where
  "as_list v = (case v of JArr xs \<Rightarrow> Inr xs | _ \<Rightarrow> Inl IllTyped)"

definition as_dict :: "json \<Rightarrow> error + (string \<Rightarrow> json option)" where
  "as_dict v = (case v of JObj m \<Rightarrow> Inr m | _ \<Rightarrow> Inl IllTyped)"

text \<open>\<open>int(v)\<close>.\<close>

definition py_int :: "'dt pylib \<Rightarrow> json \<Rightarrow> error + int" where
  "py_int lib v =
     (case v of
        JInt n \<Rightarrow> Inr n
      | JBool b \<Rightarrow> Inr (if b then 1 else 0)
      | JStr s \<Rightarrow> (case int_of_str lib s of None \<Rightarrow> Inl ValueError | Some n \<Rightarrow> Inr n)
      | _ \<Rightarrow> Inl TypeError)"

text \<open>The truth value of \<open>if v:\<close>.\<close>

definition truthy :: "json \<Rightarrow> bool" where
  "truthy v =
     (case v of
        JNull \<Rightarrow> False
      | JBool b \<Rightarrow> b
      | JInt n \<Rightarrow> n \<noteq> 0
      | JStr s \<Rightarrow> s \<noteq> []
      | JArr xs \<Rightarrow> xs \<noteq> []
      | JObj m \<Rightarrow> m \<noteq> Map.empty)"

definition team_of_dict :: "json \<Rightarrow> error + team" where
  "team_of_dict team_data =
     bind_sum (as_dict team_data) (\<lambda>td.
     bind_sum (case td ''name'' of None \<Rightarrow> Inl KeyError | Some v \<Rightarrow> as_str v) (\<lambda>nm.
     bind_sum (case td ''location'' of None \<Rightarrow> Inr [] | Some v \<Rightarrow> as_str v) (\<lambda>loc.
     bind_sum (case td ''inspiration'' of None \<Rightarrow> Inr [] | Some v \<Rightarrow> as_str v) (\<lambda>insp.
     bind_sum (case td ''notes'' of None \<Rightarrow> Inr None | Some v \<Rightarrow> as_opt_str v) (\<lambda>nts.
     Inr \<lparr>team.name = nm, location = loc, inspiration = insp, notes = nts\<rparr>)))))"

definition division_of_dict :: "'dt pylib \<Rightarrow> json \<Rightarrow> error + division" where
  "division_of_dict lib division_data =
     bind_sum (as_dict division_data) (\<lambda>dd.
     bind_sum (case dd ''teams'' of None \<Rightarrow> Inr [] | Some v \<Rightarrow> as_list v) (\<lambda>team_items.
     bind_sum (map_sum_list team_of_dict team_items) (\<lambda>ts.
     bind_sum (case dd ''level'' of None \<Rightarrow> Inl KeyError | Some v \<Rightarrow> py_int lib v) (\<lambda>lvl.
     bind_sum (case dd ''name'' of None \<Rightarrow> Inl KeyError | Some v \<Rightarrow> as_str v) (\<lambda>nm.
     bind_sum (case dd ''short_name'' of None \<Rightarrow> Inr None | Some v \<Rightarrow> as_opt_str v) (\<lambda>sn.
     Inr \<lparr>level = lvl, division.name = nm, short_name = sn, teams = ts\<rparr>))))))"

definition dict_to_pyramid :: "'dt pylib \<Rightarrow> (string \<Rightarrow> json option) \<Rightarrow> error + 'dt pyramid" where
  "dict_to_pyramid lib data =
     bind_sum (case data ''divisions'' of None \<Rightarrow> Inr [] | Some v \<Rightarrow> as_list v) (\<lambda>division_items.
     bind_sum (map_sum_list (division_of_dict lib) division_items) (\<lambda>divs.
     bind_sum (case data ''generated_at'' of
                 None \<Rightarrow> Inr None
               | Some v \<Rightarrow>
                   if truthy v then
                     (case v of
                        JStr s \<Rightarrow> (case fromisoformat lib s of
                                     None \<Rightarrow> Inl ValueError
                                   | Some t \<Rightarrow> Inr (Some t))
                      | _ \<Rightarrow> Inl TypeError)
                   else Inr None) (\<lambda>stamp.
     bind_sum (case data ''title'' of None \<Rightarrow> Inr ''Unnamed Pyramid'' | Some v \<Rightarrow> as_str v) (\<lambda>ttl.
     bind_sum (case data ''description'' of None \<Rightarrow> Inr [] | Some v \<Rightarrow> as_str v) (\<lambda>descr.
     bind_sum (case data ''meta'' of None \<Rightarrow> Inr Map.empty | Some v \<Rightarrow> as_dict v) (\<lambda>m.
     Inr (Pyramid_sort
            \<lparr>title = ttl, description = descr, divisions = divs, meta = m,
             generated_at = stamp\<rparr>)))))))"

section \<open>Notions used in the statements\<close>

text \<open>A pyramid with its timestamp erased: what two runs are compared on.\<close>

definition without_timestamp :: "'dt pyramid \<Rightarrow> 'dt pyramid" where
  "without_timestamp p = p\<lparr>generated_at := None\<rparr>"

text \<open>
  Every name \<open>_build_team\<close> can produce for a theme: a location, a mascot, possibly an
  adjective between them, and possibly one of the extra suffixes at the end.
\<close>

definition team_name_of :: "string \<times> string \<times> string \<times> bool \<times> string option \<Rightarrow> string" where
  "team_name_of = (\<lambda>(loc, mascot, adjective, below, suffix).
     (let base_name = (if below then loc @ '' '' @ mascot
                       else loc @ '' '' @ adjective @ '' '' @ mascot)
      in case suffix of None \<Rightarrow> base_name | Some s \<Rightarrow> base_name @ '' '' @ s))"

definition name_space :: "theme \<Rightarrow> string set" where
  "name_space th =
     team_name_of ` (set (locations th) \<times> set (mascots th) \<times> set (adjectives th) \<times> UNIV
                      \<times> insert None (Some ` set EXTRA_TEAM_SUFFIXES))"

definition name_capacity :: "theme \<Rightarrow> nat" where
  "name_capacity th =
     length (locations th) * (length (mascots th) * (length (adjectives th)
       * (2 * (1 + length EXTRA_TEAM_SUFFIXES))))"

text \<open>
  What \<open>_build_team\<close> needs of a theme in order not to raise: no vocabulary list is
  empty and every note template renders.
\<close>

definition wf_theme :: "theme \<Rightarrow> bool" where
  "wf_theme th \<longleftrightarrow>
     locations th \<noteq> [] \<and> mascots th \<noteq> [] \<and> adjectives th \<noteq> [] \<and> inspirations th \<noteq> []
     \<and> notes_templates th \<noteq> []
     \<and> (\<forall>tpl \<in> set (notes_templates th). \<forall>insp loc.
           \<exists>out. py_format [''inspiration'' \<mapsto> insp, ''location'' \<mapsto> loc] None tpl = Inr out)"

section \<open>Example inputs\<close>

text \<open>
  A generator whose stream for seed \<open>s\<close> counts up from \<open>s\<close>, an environment whose
  entropy stream is constantly 0, and a stand-in for the datetime library in which a
  timestamp is its ISO text without the final letter.
\<close>

definition example_prng :: "int \<Rightarrow> rng" where
  "example_prng s = siterate Suc (nat s)"

definition example_env :: "string env" where
  "example_env = \<lparr>entropy = sconst 0, utcnow = ''2024-05-01T12:00:00''\<rparr>"

definition example_lib :: "string pylib" where
  "example_lib =
     \<lparr>isoformat = (\<lambda>t. t @ ''Z''),
      fromisoformat = (\<lambda>s. if s = [] then None else Some (butlast s)),
      int_of_str = (\<lambda>s. None)\<rparr>"

text \<open>A hand-built pyramid, out of order and with absent optional fields.\<close>

definition example_handbuilt :: "string pyramid" where
  "example_handbuilt =
     \<lparr>title = ''Cup'', description = [],
      divisions =
        [\<lparr>level = 2, division.name = ''Second'', short_name = None,
          teams = [\<lparr>team.name = ''Zeta'', location = ''Doma'', inspiration = [], notes = None\<rparr>,
                   \<lparr>team.name = ''Alpha'', location = [], inspiration = ''Confederacy'',
                    notes = Some ''Founded later.''\<rparr>]\<rparr>,
         \<lparr>level = 1, division.name = ''First'', short_name = Some ''F1'', teams = []\<rparr>],
      meta = [''seed'' \<mapsto> JNull],
      generated_at = None\<rparr>"

text \<open>A document with two divisions of the same level and a team list out of order.\<close>

definition example_document :: "string \<Rightarrow> json option" where
  "example_document =
     [''divisions'' \<mapsto>
        JArr [JObj [''level'' \<mapsto> JInt 1, ''name'' \<mapsto> JStr ''North'',
                    ''teams'' \<mapsto> JArr [JObj [''name'' \<mapsto> JStr ''Rovers''],
                                          JObj [''name'' \<mapsto> JStr ''Adders'']]],
              JObj [''level'' \<mapsto> JInt 1, ''name'' \<mapsto> JStr ''South'']]]"

definition example_generated :: "string pyramid" where
  "example_generated =
     \<lparr>title = ''Eorzean Football Pyramid'',
      description = ''The heart of the realm where Gridania, Limsa Lominsa, Ul'dah, and Ishgard compete.'',
      divisions =
        [\<lparr>level = 1, division.name = ''Eorzean Premier League'', short_name = Some ''EFL L1'',
          teams =
            [\<lparr>team.name = ''Gridania Seedseers'', location = ''Gridania'',
              inspiration = ''Immortal Flames'',
              notes = Some ''Founded by veterans of the Immortal Flames.''\<rparr>,
             \<lparr>team.name = ''Labyrinthos Conjurers'', location = ''Labyrinthos'',
              inspiration = ''Students of Baldesion'',
              notes = Some ''Hails from Labyrinthos with Students of Baldesion influence.''\<rparr>]\<rparr>,
         \<lparr>level = 2, division.name = ''Grand Company Championship'', short_name = Some ''EFL L2'',
          teams =
            [\<lparr>team.name = ''Mor Dhona Azure Drakes'', location = ''Mor Dhona'',
              inspiration = ''Radz-at-Han alchemists'',
              notes = Some ''Hails from Mor Dhona with Radz-at-Han alchemists influence.''\<rparr>]\<rparr>,
         \<lparr>level = 3, division.name = ''Eorzean City-State Division I'', short_name = Some ''EFL L3'',
          teams = []\<rparr>],
      meta =
        [''theme'' \<mapsto> JStr ''eorzea'', ''seed'' \<mapsto> JInt 14,
         ''levels'' \<mapsto> JArr [JInt 2, JInt 1, JInt 0],
         ''short_prefix'' \<mapsto> JStr ''EFL'',
         ''generated_using'' \<mapsto> JStr ''ffxiv_pyramid''],
      generated_at = Some ''2024-05-01T12:00:00''\<rparr>"

definition example_resampled :: "string pyramid" where
  "example_resampled =
     \<lparr>title = ''Far Eastern Football Pyramid'',
      description = ''The trading ports of Kugane, the rebel lands of Doma, and the wandering Steppe tribes collide.'',
      divisions =
        [\<lparr>level = 1, division.name = ''Top Flight'', short_name = Some ''FEF L1'',
          teams =
            [\<lparr>team.name = ''Kugane Sekiseigumi'', location = ''Kugane'',
              inspiration = ''Sekiseigumi'',
              notes = Some ''Backed by the Sekiseigumi from Kugane.''\<rparr>]\<rparr>,
         \<lparr>level = 2, division.name = ''Hingan Championship'', short_name = Some ''FEF L2'',
          teams =
            [\<lparr>team.name = ''Kugane Sekiseigumi FC'', location = ''Kugane'',
              inspiration = ''Sekiseigumi'',
              notes = Some ''Backed by the Sekiseigumi from Kugane.''\<rparr>]\<rparr>],
      meta =
        [''theme'' \<mapsto> JStr ''far_east'', ''seed'' \<mapsto> JInt 7,
         ''levels'' \<mapsto> JArr [JInt 1, JInt 1],
         ''short_prefix'' \<mapsto> JStr ''FEF'',
         ''generated_using'' \<mapsto> JStr ''ffxiv_pyramid'',
         ''custom_division_names'' \<mapsto> JArr [JStr ''Top Flight''],
         ''resampled_from'' \<mapsto> JStr ''old.json''],
      generated_at = Some ''2024-05-01T12:00:00''\<rparr>"

definition example_extra_meta :: "string \<Rightarrow> json option" where
  "example_extra_meta = [''resampled_from'' \<mapsto> JStr ''old.json'', ''seed'' \<mapsto> JInt 7]"

definition example_loaded :: "string pyramid" where
  "example_loaded =
     \<lparr>title = ''Unnamed Pyramid'', description = [],
      divisions =
        [\<lparr>level = 1, division.name = ''North'', short_name = None,
          teams = [\<lparr>team.name = ''Adders'', location = [], inspiration = [], notes = None\<rparr>,
                   \<lparr>team.name = ''Rovers'', location = [], inspiration = [], notes = None\<rparr>]\<rparr>,
         \<lparr>level = 1, division.name = ''South'', short_name = None, teams = []\<rparr>],
      meta = Map.empty,
      generated_at = None\<rparr>"

section \<open>Auxiliary facts\<close>

subsection \<open>Binding results\<close>

lemma bind_res_Inr_iff:
  "bind_res m f = Some (Inr y) \<longleftrightarrow> (\<exists>a. m = Some (Inr a) \<and> f a = Some (Inr y))"
  by (auto simp: bind_res_def split: option.splits sum.splits)

lemma bind_sum_Inr_iff:
  "bind_sum m f = Inr y \<longleftrightarrow> (\<exists>a. m = Inr a \<and> f a = Inr y)"
  by (auto simp: bind_sum_def split: sum.splits)

lemma bind_res_Inl_iff:
  "bind_res m f = Some (Inl e) \<longleftrightarrow>
     m = Some (Inl e) \<or> (\<exists>a. m = Some (Inr a) \<and> f a = Some (Inl e))"
  by (auto simp: bind_res_def split: option.splits sum.splits)

subsection \<open>The themes\<close>

lemma theme_eorzea_fields:
  "key theme_eorzea = ''eorzea''"
  "region_name theme_eorzea = ''Eorzean''"
  "short_prefix theme_eorzea = ''EFL''"
  "premier_title theme_eorzea = ''Eorzean Premier League''"
  "championship_title theme_eorzea = ''Grand Company Championship''"
  "lower_division_title theme_eorzea = ''City-State Division''"
  "highlight theme_eorzea = ''The heart of the realm where Gridania, Limsa Lominsa, Ul'dah, and Ishgard compete.''"
  "locations theme_eorzea =
       [''Gridania'',
        ''Limsa Lominsa'',
        ''Ul'dah'',
        ''Ishgard'',
        ''Sharlayan'',
        ''Radz-at-Han'',
        ''Mor Dhona'',
        ''La Noscea'',
        ''Coerthas'',
        ''Thanalan'',
        ''The Dravanian Forelands'',
        ''Lakeland'',
        ''Thavnair'',
        ''Old Sharlayan'',
        ''Labyrinthos'',
        ''Kugane'',
        ''Idyllshire'',
        ''Garlemald Reclaimed'',
        ''The Crystarium'',
        ''Old Gridania'']"
  "mascots theme_eorzea =
       [''Scions'',
        ''Seedseers'',
        ''Maelstrom'',
        ''Immortals'',
        ''Temple Knights'',
        ''Astrologians'',
        ''Nald'thal'',
        ''Azure Drakes'',
        ''Carbuncle'',
        ''Chocobos'',
        ''Free Paladins'',
        ''Gobwalkers'',
        ''Sky Pirates'',
        ''Radiant Dawn'',
        ''House Fortemps'',
        ''Conjurers'',
        ''Adders'',
        ''Flames'',
        ''Blades'',
        ''Dragoons'']"
  "adjectives theme_eorzea =
       [''Twin'',
        ''Rising'',
        ''Mythril'',
        ''Heavensward'',
        ''Stormborn'',
        ''Starlit'',
        ''Ruby'',
        ''Umbral'',
        ''Astral'',
        ''Azure'',
        ''Verdant'',
        ''Gilded'',
        ''Crystalline'',
        ''Eternal'',
        ''Radiant'']"
  "inspirations theme_eorzea =
       [''Scions of the Seventh Dawn'',
        ''Order of the Twin Adder'',
        ''Immortal Flames'',
        ''Maelstrom'',
        ''Temple Knights'',
        ''Ishgardian Restoration'',
        ''Crystarium Guard'',
        ''Students of Baldesion'',
        ''Radz-at-Han alchemists'',
        ''Sharlayan Forum'',
        ''Bozjan Resistance'']"
  "notes_templates theme_eorzea =
       [''Backed by the {inspiration} from {location}.'',
        ''Founded by veterans of the {inspiration}.'',
        ''Club culture steeped in {inspiration} tradition.'',
        ''Hails from {location} with {inspiration} influence.'']"
  by (simp_all add: theme_eorzea_def)

lemma theme_far_east_fields:
  "key theme_far_east = ''far_east''"
  "region_name theme_far_east = ''Far Eastern''"
  "short_prefix theme_far_east = ''FEF''"
  "premier_title theme_far_east = ''Kugane Premier Division''"
  "championship_title theme_far_east = ''Hingan Championship''"
  "lower_division_title theme_far_east = ''Eastern League''"
  "highlight theme_far_east = ''The trading ports of Kugane, the rebel lands of Doma, and the wandering Steppe tribes collide.''"
  "locations theme_far_east =
       [''Kugane'',
        ''Doma'',
        ''Yanxia'',
        ''The Azim Steppe'',
        ''Hingashi'',
        ''Sui-no-Sato'',
        ''The Ruby Sea'',
        ''Isari'',
        ''Namai'',
        ''Tsurumi'',
        ''Shisui of the Violet Tides'',
        ''Reunion'',
        ''Tamamizu'',
        ''Shirogane'',
        ''Onokoro'',
        ''Seigetsu'']"
  "mascots theme_far_east =
       [''Sekiseigumi'',
        ''Raen'',
        ''Xaela'',
        ''Ruby Ronin'',
        ''Steppe Riders'',
        ''Doman Clans'',
        ''Geiko'',
        ''Raijin'',
        ''Komainu'',
        ''Crimson Lancers'',
        ''Blue Oni'',
        ''Sea Wolves'',
        ''Tengu'',
        ''Moonlit Ronin'',
        ''Skyfarers'']"
  "adjectives theme_far_east =
       [''Blossom'',
        ''Moonlit'',
        ''Stormjade'',
        ''Tempest'',
        ''Crimson'',
        ''Azure'',
        ''Sakura'',
        ''Silver'',
        ''Verdant'',
        ''Dragon'']"
  "inspirations theme_far_east =
       [''Sekiseigumi'',
        ''House of the Fierce'',
        ''Confederacy'',
        ''Doman Liberation Front'',
        ''Mol Warriors'',
        ''Seiryu Temple'',
        ''Tales of the Ruby Princess'']"
  "notes_templates theme_far_east =
       [''Backed by the {inspiration} from {location}.'',
        ''Combines tactics from the {inspiration} with Far Eastern flair.'',
        ''Favoured by sailors of the {inspiration}.'']"
  by (simp_all add: theme_far_east_def)

lemma theme_garlemald_fields:
  "key theme_garlemald = ''garlemald''"
  "region_name theme_garlemald = ''Imperial''"
  "short_prefix theme_garlemald = ''IGL''"
  "premier_title theme_garlemald = ''Imperial Supremacy League''"
  "championship_title theme_garlemald = ''Praetoriate Championship''"
  "lower_division_title theme_garlemald = ''Legion Divisions''"
  "highlight theme_garlemald = ''Reformed Garlean legions and liberated provinces contest the imperial title.''"
  "locations theme_garlemald =
       [''Garlemald'',
        ''Bozja'',
        ''Werlyt'',
        ''Dalmasca'',
        ''Ala Mhigo'',
        ''Terncliff'',
        ''Paglth'an'',
        ''Corvos'',
        ''Iskaal'',
        ''Locus Amoenus'',
        ''Porta Praetoria'',
        ''Tertium'',
        ''Zadnor'']"
  "mascots theme_garlemald =
       [''Magitek'',
        ''Legati'',
        ''Centurions'',
        ''Ceruleum'',
        ''Gunblades'',
        ''Dreadnaughts'',
        ''Praetorians'',
        ''Machina'',
        ''Imperial Fangs'',
        ''Ala Mhigan Shields'',
        ''Resistance'']"
  "adjectives theme_garlemald =
       [''Adamant'',
        ''Iron'',
        ''Cerulean'',
        ''Imperial'',
        ''Reborn'',
        ''Resolute'',
        ''Steel'',
        ''Vanguard'']"
  "inspirations theme_garlemald =
       [''IVth Legion'',
        ''Bozjan Resistance'',
        ''Werlyt Rebellion'',
        ''Dalmascan Royalists'',
        ''Ala Mhigan Monks'',
        ''Corvos Insurgents'']"
  "notes_templates theme_garlemald =
       [''Former {inspiration} unit now focused on footballing glory.'',
        ''Uses magitek support from {location}.'',
        ''Celebrates {inspiration} heritage in every match.'']"
  by (simp_all add: theme_garlemald_def)

lemma get_theme_eorzea: "get_theme ''eorzea'' = Inr theme_eorzea"
  by (simp add: get_theme_def THEMES_def lower_def lower_char_def replace_hyphens_def)

lemma get_theme_far_east: "get_theme ''Far-East'' = Inr theme_far_east"
  by (simp add: get_theme_def THEMES_def lower_def lower_char_def replace_hyphens_def)

lemma get_theme_garlemald: "get_theme ''garlemald'' = Inr theme_garlemald"
  by (simp add: get_theme_def THEMES_def lower_def lower_char_def replace_hyphens_def)

lemma get_theme_cases:
  assumes "get_theme k = Inr th"
  shows "th = theme_eorzea \<or> th = theme_far_east \<or> th = theme_garlemald"
proof -
  from assms have "map_of THEMES (replace_hyphens (lower k)) = Some th"
    by (simp add: get_theme_def Let_def split: option.splits)
  then have "(replace_hyphens (lower k), th) \<in> set THEMES"
    by (rule map_of_SomeD)
  then show ?thesis by (auto simp: THEMES_def)
qed

lemma get_theme_error: "get_theme k = Inl e \<Longrightarrow> e = KeyError"
  by (simp add: get_theme_def Let_def split: option.splits)

lemma wf_theme_eorzea: "wf_theme theme_eorzea"
  by (simp add: wf_theme_def theme_eorzea_def bind_sum_def)

lemma wf_theme_far_east: "wf_theme theme_far_east"
  by (simp add: wf_theme_def theme_far_east_def bind_sum_def)

lemma wf_theme_garlemald: "wf_theme theme_garlemald"
  by (simp add: wf_theme_def theme_garlemald_def bind_sum_def)

lemma get_theme_wf: "get_theme k = Inr th \<Longrightarrow> wf_theme th"
  using get_theme_cases [of k th] wf_theme_eorzea wf_theme_far_east wf_theme_garlemald by blast

subsection \<open>The names of the teams built\<close>

lemma choice_member: "choice r xs = Inr (x, r') \<Longrightarrow> x \<in> set xs"
  by (auto simp: choice_def split: if_splits)

lemma build_team_while_result:
  assumes "build_team_while base_name used_names nm r = Some (Inr (nm', r'))"
  shows "nm' \<notin> used_names \<and>
         (nm' = nm \<or> (\<exists>s \<in> set EXTRA_TEAM_SUFFIXES. nm' = base_name @ '' '' @ s))"
proof -
  let ?P = "\<lambda>b u n (r :: rng) (y :: error + string \<times> rng). \<forall>nm' r'. y = Inr (nm', r') \<longrightarrow>
        nm' \<notin> u \<and> (nm' = n \<or> (\<exists>s \<in> set EXTRA_TEAM_SUFFIXES. nm' = b @ '' '' @ s))"
  have "?P base_name used_names nm r (Inr (nm', r'))"
  proof (rule build_team_while.raw_induct [where P = ?P, OF _ assms])
    fix loop b u n r y
    assume IH: "\<And>b u n r y. loop b u n r = Some y \<Longrightarrow> ?P b u n r y"
      and body: "(if n \<in> u then
          (case choice r EXTRA_TEAM_SUFFIXES of
             Inl e \<Rightarrow> Some (Inl e)
           | Inr (suffix, r') \<Rightarrow> loop b u (b @ '' '' @ suffix) r')
        else Some (Inr (n, r))) = Some y"
    show "?P b u n r y"
    proof (cases "n \<in> u")
      case False
      with body show ?thesis by auto
    next
      case True
      show ?thesis
      proof (cases "choice r EXTRA_TEAM_SUFFIXES")
        case (Inl e)
        with True body show ?thesis by auto
      next
        case (Inr sr)
        obtain suffix r1 where sr: "sr = (suffix, r1)" by (cases sr)
        from True Inr sr body have "loop b u (b @ '' '' @ suffix) r1 = Some y"
          by simp
        from IH [OF this] choice_member [OF Inr [unfolded sr]] show ?thesis by auto
      qed
    qed
  qed
  then show ?thesis by simp
qed

lemma finite_name_space: "finite (name_space th)"
  by (simp add: name_space_def)

lemma card_name_space: "card (name_space th) \<le> name_capacity th"
proof -
  let ?S = "insert None (Some ` set EXTRA_TEAM_SUFFIXES)"
  let ?D = "set (locations th) \<times> set (mascots th) \<times> set (adjectives th) \<times> (UNIV :: bool set) \<times> ?S"
  have "card ?S \<le> 1 + length EXTRA_TEAM_SUFFIXES"
  proof -
    have "card ?S \<le> Suc (card (Some ` set EXTRA_TEAM_SUFFIXES))"
      by (simp add: card_insert_if)
    also have "card (Some ` set EXTRA_TEAM_SUFFIXES) \<le> card (set EXTRA_TEAM_SUFFIXES)"
      by (rule card_image_le) simp
    also have "card (set EXTRA_TEAM_SUFFIXES) \<le> length EXTRA_TEAM_SUFFIXES"
      by (rule card_length)
    finally show ?thesis by simp
  qed
  then have "card ?D \<le> name_capacity th"
    unfolding name_capacity_def card_cartesian_product
    by (intro mult_le_mono card_length) (simp_all add: card_UNIV_bool)
  moreover have "card (name_space th) \<le> card ?D"
    unfolding name_space_def by (rule card_image_le) simp
  ultimately show ?thesis by simp
qed

lemma build_team_result:
  assumes "build_team th r used_names = Some (Inr (t, r', used'))"
  shows "team.name t \<notin> used_names \<and> used' = insert (team.name t) used_names
           \<and> team.name t \<in> name_space th"
proof -
  from assms obtain loc r1 mascot r2 adjective r3 nm r5 where
    loc: "choice r (locations th) = Inr (loc, r1)" and
    mascot: "choice r1 (mascots th) = Inr (mascot, r2)" and
    adjective: "choice r2 (adjectives th) = Inr (adjective, r3)" and
    loop: "build_team_while
             (if shd r3 mod 100 < 55 then loc @ '' '' @ mascot else loc @ '' '' @ adjective @ '' '' @ mascot)
             used_names
             (if shd r3 mod 100 < 55 then loc @ '' '' @ mascot else loc @ '' '' @ adjective @ '' '' @ mascot)
             (stl r3) = Some (Inr (nm, r5))" and
    t: "team.name t = nm" and used': "used' = insert nm used_names"
    by (auto simp: build_team_def bind_res_Inr_iff random_below_055_def Let_def)
  let ?below = "shd r3 mod 100 < 55"
  let ?base = "if ?below then loc @ '' '' @ mascot else loc @ '' '' @ adjective @ '' '' @ mascot"
  from build_team_while_result [OF loop]
  have fresh: "nm \<notin> used_names"
    and shape: "nm = ?base \<or> (\<exists>s \<in> set EXTRA_TEAM_SUFFIXES. nm = ?base @ '' '' @ s)"
    by blast+
  from shape obtain sfx where sfx: "sfx \<in> insert None (Some ` set EXTRA_TEAM_SUFFIXES)"
    and nm: "nm = team_name_of (loc, mascot, adjective, ?below, sfx)"
  proof
    assume "nm = ?base"
    then have "nm = team_name_of (loc, mascot, adjective, ?below, None)"
      by (simp add: team_name_of_def)
    then show ?thesis using that [of None] by simp
  next
    assume "\<exists>s \<in> set EXTRA_TEAM_SUFFIXES. nm = ?base @ '' '' @ s"
    then obtain s where s: "s \<in> set EXTRA_TEAM_SUFFIXES" and "nm = ?base @ '' '' @ s" by blast
    then have "nm = team_name_of (loc, mascot, adjective, ?below, Some s)"
      by (simp add: team_name_of_def)
    then show ?thesis using that [of "Some s"] s by simp
  qed
  have "nm \<in> name_space th"
    unfolding name_space_def nm
    using choice_member [OF loc] choice_member [OF mascot] choice_member [OF adjective] sfx
    by (intro imageI) simp
  with fresh t used' show ?thesis by simp
qed

lemma build_teams_result:
  "build_teams th n r used_names = Some (Inr (ts, r', used')) \<Longrightarrow>
     length ts = n \<and> distinct (map team.name ts) \<and> set (map team.name ts) \<inter> used_names = {}
       \<and> used' = used_names \<union> set (map team.name ts) \<and> set (map team.name ts) \<subseteq> name_space th"
proof (induction n arbitrary: r used_names ts r' used')
  case 0
  then show ?case by simp
next
  case (Suc n)
  from Suc.prems obtain t r1 used1 ts1 where
    first: "build_team th r used_names = Some (Inr (t, r1, used1))" and
    rest: "build_teams th n r1 used1 = Some (Inr (ts1, r', used'))" and
    ts: "ts = t # ts1"
    by (auto simp: bind_res_Inr_iff)
  from build_team_result [OF first] Suc.IH [OF rest] ts show ?case
    by auto
qed

lemma build_division_result:
  assumes "build_division th lvl team_count total_levels r used_names custom = Some (Inr (d, r', used'))"
  shows "level d = lvl \<and> division_name th lvl total_levels custom = Inr (division.name d)
           \<and> short_name d = Some (short_name_of th lvl)
           \<and> length (teams d) = nat team_count
           \<and> distinct (map team.name (teams d))
           \<and> set (map team.name (teams d)) \<inter> used_names = {}
           \<and> used' = used_names \<union> set (map team.name (teams d))
           \<and> set (map team.name (teams d)) \<subseteq> name_space th"
proof -
  from assms obtain nm ts where
    nm: "division_name th lvl total_levels custom = Inr nm" and
    ts: "build_teams th (nat team_count) r used_names = Some (Inr (ts, r', used'))" and
    d: "d = \<lparr>level = lvl, division.name = nm, short_name = Some (short_name_of th lvl), teams = ts\<rparr>"
    by (auto simp: build_division_def bind_res_Inr_iff)
  from build_teams_result [OF ts] nm d show ?thesis by simp
qed

lemma build_divisions_shape:
  "build_divisions th total_levels custom idx sizes r used_names = Some (Inr ds) \<Longrightarrow>
     length ds = length sizes \<and>
     (\<forall>i < length sizes.
        level (ds ! i) = idx + int i
        \<and> division_name th (idx + int i) total_levels custom = Inr (division.name (ds ! i))
        \<and> short_name (ds ! i) = Some (short_name_of th (idx + int i))
        \<and> length (teams (ds ! i)) = nat (sizes ! i))"
proof (induction sizes arbitrary: idx r used_names ds)
  case Nil
  then show ?case by simp
next
  case (Cons team_count rest)
  from Cons.prems obtain d r1 used1 ds1 where
    first: "build_division th idx team_count total_levels r used_names custom = Some (Inr (d, r1, used1))" and
    rest: "build_divisions th total_levels custom (idx + 1) rest r1 used1 = Some (Inr ds1)" and
    ds: "ds = d # ds1"
    by (auto simp: bind_res_Inr_iff)
  note d = build_division_result [OF first]
  note IH = Cons.IH [OF rest]
  show ?case
  proof (intro conjI allI impI)
    show "length ds = length (team_count # rest)" using IH ds by simp
  next
    fix i assume i: "i < length (team_count # rest)"
    show "level (ds ! i) = idx + int i" using d IH ds i by (cases i) auto
    show "division_name th (idx + int i) total_levels custom = Inr (division.name (ds ! i))"
      using d IH ds i by (cases i) (auto simp: add.assoc)
    show "short_name (ds ! i) = Some (short_name_of th (idx + int i))"
      using d IH ds i by (cases i) (auto simp: add.assoc)
    show "length (teams (ds ! i)) = nat ((team_count # rest) ! i)"
      using d IH ds i by (cases i) auto
  qed
qed

lemma build_divisions_names:
  "build_divisions th total_levels custom idx sizes r used_names = Some (Inr ds) \<Longrightarrow>
     distinct (map team.name (concat (map teams ds)))
     \<and> set (map team.name (concat (map teams ds))) \<inter> used_names = {}
     \<and> set (map team.name (concat (map teams ds))) \<subseteq> name_space th"
proof (induction sizes arbitrary: idx r used_names ds)
  case Nil
  then show ?case by simp
next
  case (Cons team_count rest)
  from Cons.prems obtain d r1 used1 ds1 where
    first: "build_division th idx team_count total_levels r used_names custom = Some (Inr (d, r1, used1))" and
    rest: "build_divisions th total_levels custom (idx + 1) rest r1 used1 = Some (Inr ds1)" and
    ds: "ds = d # ds1"
    by (auto simp: bind_res_Inr_iff)
  from build_division_result [OF first] Cons.IH [OF rest] ds show ?case
    by auto
qed

lemma build_divisions_team_count:
  assumes "build_divisions th total_levels custom idx sizes r used_names = Some (Inr ds)"
  shows "length (concat (map teams ds)) = sum_list (map nat sizes)"
proof -
  from build_divisions_shape [OF assms]
  have len: "length ds = length sizes"
    and each: "\<forall>i < length sizes. length (teams (ds ! i)) = nat (sizes ! i)"
    by blast+
  have "map (length \<circ> teams) ds = map nat sizes"
    using len each by (intro nth_equalityI) simp_all
  then show ?thesis by (simp add: length_concat comp_def)
qed

subsection \<open>Exceptions of the generator\<close>

lemma build_team_while_no_error:
  assumes "build_team_while base_name used_names nm r = Some (Inl e)"
  shows False
proof -
  let ?P = "\<lambda>(b :: string) (u :: string set) (n :: string) (r :: rng) (y :: error + string \<times> rng).
              \<forall>e. y \<noteq> Inl e"
  have "?P base_name used_names nm r (Inl e)"
  proof (rule build_team_while.raw_induct [where P = ?P, OF _ assms])
    fix loop b u n r y
    assume IH: "\<And>b u n r y. loop b u n r = Some y \<Longrightarrow> ?P b u n r y"
      and body: "(if n \<in> u then
          (case choice r EXTRA_TEAM_SUFFIXES of
             Inl e \<Rightarrow> Some (Inl e)
           | Inr (suffix, r') \<Rightarrow> loop b u (b @ '' '' @ suffix) r')
        else Some (Inr (n, r))) = Some y"
    show "?P b u n r y"
    proof (cases "n \<in> u")
      case False
      with body show ?thesis by auto
    next
      case True
      with body have "loop b u (b @ '' '' @ (EXTRA_TEAM_SUFFIXES ! (shd r mod length EXTRA_TEAM_SUFFIXES))) (stl r) = Some y"
        by (simp add: choice_def EXTRA_TEAM_SUFFIXES_def)
      from IH [OF this] show ?thesis .
    qed
  qed
  then show False by simp
qed

lemma build_team_no_error:
  assumes "wf_theme th"
  shows "build_team th r used_names \<noteq> Some (Inl e)"
proof
  assume err: "build_team th r used_names = Some (Inl e)"
  from assms have ne: "locations th \<noteq> []" "mascots th \<noteq> []" "adjectives th \<noteq> []"
      "inspirations th \<noteq> []" "notes_templates th \<noteq> []"
    and fmt: "\<And>tpl insp loc. tpl \<in> set (notes_templates th) \<Longrightarrow>
           \<exists>out. py_format [''inspiration'' \<mapsto> insp, ''location'' \<mapsto> loc] None tpl = Inr out"
    by (auto simp: wf_theme_def)
  have tpl: "notes_templates th ! (n mod length (notes_templates th)) \<in> set (notes_templates th)" for n
    using ne(5) by simp
  have loop: "build_team_while b u n q \<noteq> Some (Inl e)" for b u n q
    using build_team_while_no_error by blast
  have rendered: "py_format [''inspiration'' \<mapsto> insp, ''location'' \<mapsto> loc] None
           (notes_templates th ! (n mod length (notes_templates th))) \<noteq> Inl e" for insp loc n
    using fmt [OF tpl, of insp loc n] by auto
  from err show False
    using ne loop rendered
    by (auto simp: build_team_def bind_res_Inl_iff choice_def random_below_055_def Let_def
             split: prod.splits)
qed

lemma build_teams_no_error:
  "wf_theme th \<Longrightarrow> build_teams th n r used_names \<noteq> Some (Inl e)"
  by (induction n arbitrary: r used_names) (auto simp: bind_res_Inl_iff build_team_no_error)

lemma division_name_no_error:
  assumes "1 \<le> lvl"
  shows "division_name th lvl total_levels custom \<noteq> Inl e"
  using assms by (auto simp: division_name_def py_index_def split: option.splits)

lemma build_division_no_error:
  "wf_theme th \<Longrightarrow> 1 \<le> lvl \<Longrightarrow>
     build_division th lvl team_count total_levels r used_names custom \<noteq> Some (Inl e)"
  by (auto simp: build_division_def bind_res_Inl_iff build_teams_no_error division_name_no_error)

lemma build_divisions_no_error:
  "wf_theme th \<Longrightarrow> 1 \<le> idx \<Longrightarrow>
     build_divisions th total_levels custom idx sizes r used_names \<noteq> Some (Inl e)"
  by (induction sizes arbitrary: idx r used_names)
     (auto simp: bind_res_Inl_iff build_division_no_error)

lemma generate_pyramid_raises:
  assumes "generate_pyramid prng E level_sizes theme_key seed title_arg description_arg custom extra
             = Some (Inl e)"
  shows "(level_sizes = [] \<and> e = ValueError)
           \<or> (level_sizes \<noteq> [] \<and> get_theme theme_key = Inl KeyError \<and> e = KeyError)"
proof (cases "level_sizes = []")
  case True
  with assms show ?thesis by (simp add: generate_pyramid_def)
next
  case False
  show ?thesis
  proof (cases "get_theme theme_key")
    case (Inl e')
    with False assms get_theme_error [OF Inl] show ?thesis
      by (simp add: generate_pyramid_def bind_res_def)
  next
    case (Inr th)
    from get_theme_wf [OF Inr] have "wf_theme th" .
    from build_divisions_no_error [OF this, of 1] False assms Inr show ?thesis
      by (auto simp: generate_pyramid_def bind_res_Inl_iff Let_def)
  qed
qed

lemma build_divisions_no_teams:
  "\<forall>n \<in> set sizes. n \<le> 0 \<Longrightarrow> 1 \<le> idx \<Longrightarrow>
     \<exists>ds. build_divisions th total_levels custom idx sizes r used_names = Some (Inr ds)
          \<and> (\<forall>d \<in> set ds. teams d = [])"
proof (induction sizes arbitrary: idx)
  case Nil
  then show ?case by simp
next
  case (Cons team_count rest)
  from Cons.prems have tc: "nat team_count = 0" by simp
  from division_name_no_error [OF Cons.prems(2)]
  obtain nm where nm: "division_name th idx total_levels custom = Inr nm"
    by (cases "division_name th idx total_levels custom") auto
  from Cons.IH [of "idx + 1"] Cons.prems
  obtain ds where "build_divisions th total_levels custom (idx + 1) rest r used_names = Some (Inr ds)"
    and "\<forall>d \<in> set ds. teams d = []"
    by auto
  with tc nm show ?case
    by (simp add: build_division_def bind_res_def)
qed

subsection \<open>What a call of the generator returns\<close>

lemma generate_pyramid_returns:
  assumes "generate_pyramid prng E level_sizes theme_key seed title_arg description_arg custom extra
             = Some (Inr p)"
  shows "\<exists>th ds. level_sizes \<noteq> [] \<and> get_theme theme_key = Inr th
           \<and> build_divisions th (int (length level_sizes)) custom 1 level_sizes
                (case seed of None \<Rightarrow> entropy E | Some s \<Rightarrow> prng s) {} = Some (Inr ds)
           \<and> divisions p = map (\<lambda>d. d\<lparr>teams := sort_key team.name (teams d)\<rparr>) (sort_key level ds)
           \<and> title p = (case title_arg of
                          None \<Rightarrow> region_name th @ '' Football Pyramid''
                        | Some t \<Rightarrow> if t = [] then region_name th @ '' Football Pyramid'' else t)
           \<and> description p = (case description_arg of
                                None \<Rightarrow> highlight th
                              | Some d \<Rightarrow> if d = [] then highlight th else d)
           \<and> generated_at p = Some (utcnow E)"
  using assms
  by (auto simp: generate_pyramid_def bind_res_Inr_iff Let_def Pyramid_sort_def split: if_splits)

lemma sort_key_level_generated:
  assumes "build_divisions th total_levels custom idx sizes r used_names = Some (Inr ds)"
  shows "sort_key level ds = ds" and "sorted_wrt (<) (map level ds)"
proof -
  from build_divisions_shape [OF assms]
  have len: "length ds = length sizes" and lv: "\<forall>i < length sizes. level (ds ! i) = idx + int i"
    by blast+
  have "map level ds = map (\<lambda>i. idx + int i) [0..<length sizes]"
    using len lv by (intro nth_equalityI) simp_all
  moreover have "sorted_wrt (<) (map (\<lambda>i. idx + int i) [0..<length sizes])"
    by (simp add: sorted_wrt_map sorted_wrt_iff_nth_less)
  ultimately show "sorted_wrt (<) (map level ds)" by simp
  then show "sort_key level ds = ds"
    by (intro sort_key_id_if_sorted strict_sorted_imp_sorted)
qed

lemma sorted_team_names_distinct:
  "distinct (map team.name (sort_key team.name ts)) = distinct (map team.name ts)"
  by (simp add: distinct_map)

lemma sorted_teams_names_set:
  "set (map team.name (concat (map teams (map (\<lambda>d. d\<lparr>teams := sort_key team.name (teams d)\<rparr>) ds))))
     = set (map team.name (concat (map teams ds)))"
  by (induction ds) auto

lemma sorted_teams_names_distinct:
  "distinct (map team.name (concat (map teams (map (\<lambda>d. d\<lparr>teams := sort_key team.name (teams d)\<rparr>) ds))))
     = distinct (map team.name (concat (map teams ds)))"
proof (induction ds)
  case Nil
  show ?case by simp
next
  case (Cons d ds)
  have "set (map team.name (concat (map teams (map (\<lambda>d. d\<lparr>teams := sort_key team.name (teams d)\<rparr>) ds))))
          = set (map team.name (concat (map teams ds)))"
    by (rule sorted_teams_names_set)
  with Cons.IH sorted_team_names_distinct [of "teams d"] show ?case
    by simp
qed

lemma generate_pyramid_divisions:
  assumes "generate_pyramid prng E level_sizes theme_key seed title_arg description_arg custom extra
             = Some (Inr p)"
  shows "\<exists>th ds. level_sizes \<noteq> [] \<and> get_theme theme_key = Inr th
           \<and> build_divisions th (int (length level_sizes)) custom 1 level_sizes
                (case seed of None \<Rightarrow> entropy E | Some s \<Rightarrow> prng s) {} = Some (Inr ds)
           \<and> divisions p = map (\<lambda>d. d\<lparr>teams := sort_key team.name (teams d)\<rparr>) ds"
proof -
  from generate_pyramid_returns [OF assms] obtain th ds where
    ne: "level_sizes \<noteq> []" and th: "get_theme theme_key = Inr th" and
    ds: "build_divisions th (int (length level_sizes)) custom 1 level_sizes
           (case seed of None \<Rightarrow> entropy E | Some s \<Rightarrow> prng s) {} = Some (Inr ds)" and
    p: "divisions p = map (\<lambda>d. d\<lparr>teams := sort_key team.name (teams d)\<rparr>) (sort_key level ds)"
    by blast
  from sort_key_level_generated(1) [OF ds] p ne th ds show ?thesis by auto
qed

lemma generate_pyramid_capacity:
  assumes "generate_pyramid prng E level_sizes theme_key seed title_arg description_arg custom extra
             = Some (Inr p)"
    and "get_theme theme_key = Inr th"
  shows "sum_list (map nat level_sizes) \<le> name_capacity th"
proof -
  from generate_pyramid_divisions [OF assms(1)] assms(2) obtain ds where
    ds: "build_divisions th (int (length level_sizes)) custom 1 level_sizes
           (case seed of None \<Rightarrow> entropy E | Some s \<Rightarrow> prng s) {} = Some (Inr ds)"
    by auto
  let ?names = "map team.name (concat (map teams ds))"
  from build_divisions_names [OF ds] have "distinct ?names" and sub: "set ?names \<subseteq> name_space th"
    by blast+
  then have "length ?names = card (set ?names)"
    by (simp only: distinct_card)
  also have "\<dots> \<le> card (name_space th)"
    using sub finite_name_space by (rule card_mono [rotated])
  also have "\<dots> \<le> name_capacity th"
    by (rule card_name_space)
  finally show ?thesis
    using build_divisions_team_count [OF ds] by simp
qed

lemma generate_pyramid_meta:
  assumes "generate_pyramid prng E ls k seed t d c x = Some (Inr p)"
    and "get_theme k = Inr th"
  shows "meta p =
           (let meta0 = [''theme'' \<mapsto> JStr (key th),
                         ''seed'' \<mapsto> (case seed of None \<Rightarrow> JNull | Some s \<Rightarrow> JInt s),
                         ''levels'' \<mapsto> JArr (map JInt ls),
                         ''short_prefix'' \<mapsto> JStr (short_prefix th),
                         ''generated_using'' \<mapsto> JStr ''ffxiv_pyramid''];
                meta1 = (case c of
                           None \<Rightarrow> meta0
                         | Some cs \<Rightarrow>
                             if cs = [] then meta0
                             else meta0(''custom_division_names'' \<mapsto> JArr (map JStr cs)))
            in case x of None \<Rightarrow> meta1 | Some e \<Rightarrow> meta1 ++ e)"
proof -
  from assms obtain divs where
    "build_divisions th (int (length ls)) c 1 ls
       (case seed of None \<Rightarrow> entropy E | Some s \<Rightarrow> prng s) {} = Some (Inr divs)"
    by (auto simp: generate_pyramid_def bind_res_Inr_iff Let_def split: if_splits)
  with assms show ?thesis
    by (cases x) (auto simp: generate_pyramid_def bind_res_def Let_def Pyramid_sort_def split: if_splits)
qed

subsection \<open>The serializer\<close>

lemma map_sum_list_Inr:
  "(\<And>x. x \<in> set xs \<Longrightarrow> f (g x) = Inr x) \<Longrightarrow> map_sum_list f (map g xs) = Inr xs"
  by (induction xs) (simp_all add: bind_sum_def)

lemma team_roundtrip: "team_of_dict (team_to_dict t) = Inr t"
  by (cases "notes t")
     (simp_all add: team_of_dict_def team_to_dict_def bind_sum_def as_dict_def as_str_def as_opt_str_def)

lemma division_roundtrip: "division_of_dict lib (division_to_dict d) = Inr d"
  by (cases "short_name d")
     (simp_all add: division_of_dict_def division_to_dict_def bind_sum_def as_dict_def as_str_def
        as_opt_str_def as_list_def py_int_def map_sum_list_Inr team_roundtrip)

lemma dict_to_pyramid_returns:
  assumes "dict_to_pyramid lib data = Inr q"
  shows "\<exists>ds. divisions q = map (\<lambda>d. d\<lparr>teams := sort_key team.name (teams d)\<rparr>) (sort_key level ds)"
  using assms by (auto simp: dict_to_pyramid_def bind_sum_Inr_iff Pyramid_sort_def)

subsection \<open>The example runs\<close>

lemma build_teams_numeral:
  "build_teams th (numeral k) r u = build_teams th (Suc (pred_numeral k)) r u"
  by (simp add: numeral_eq_Suc)

lemmas run_simps =
  generate_pyramid_def bind_res_def bind_sum_def build_division_def division_name_def
  short_name_of_def str_of_int_def str_of_nat.simps decimal_digits_def build_teams_numeral
  build_team_def choice_def random_below_055_def build_team_while.simps EXTRA_TEAM_SUFFIXES_def
  Pyramid_sort_def example_env_def example_prng_def Let_def py_index_def roman_def
  roman_loop.simps numerals_def

lemma example_generated_run:
  "generate_pyramid example_prng example_env [2, 1, 0] ''eorzea'' (Some 14) None None None None
     = Some (Inr example_generated)"
  by (simp add: run_simps get_theme_eorzea theme_eorzea_fields example_generated_def)

lemma example_extra_meta_nonempty: "example_extra_meta \<noteq> Map.empty"
  by (simp add: example_extra_meta_def)

lemma example_resampled_meta:
  "[''theme'' \<mapsto> JStr ''far_east'', ''seed'' \<mapsto> JNull,
    ''levels'' \<mapsto> JArr [JInt 1, JInt 1],
    ''short_prefix'' \<mapsto> JStr ''FEF'',
    ''generated_using'' \<mapsto> JStr ''ffxiv_pyramid'',
    ''custom_division_names'' \<mapsto> JArr [JStr ''Top Flight'']] ++ example_extra_meta
   = meta example_resampled"
  by (rule ext) (simp add: example_extra_meta_def example_resampled_def map_add_def)

lemma example_resampled_run:
  "generate_pyramid example_prng example_env [1, 1] ''Far-East'' None (Some []) (Some [])
       (Some [''Top Flight'']) (Some example_extra_meta)
     = Some (Inr example_resampled)"
proof -
  have "generate_pyramid example_prng example_env [1, 1] ''Far-East'' None (Some []) (Some [])
       (Some [''Top Flight'']) (Some example_extra_meta)
     = Some (Inr (example_resampled\<lparr>meta := [''theme'' \<mapsto> JStr ''far_east'', ''seed'' \<mapsto> JNull,
    ''levels'' \<mapsto> JArr [JInt 1, JInt 1],
    ''short_prefix'' \<mapsto> JStr ''FEF'',
    ''generated_using'' \<mapsto> JStr ''ffxiv_pyramid'',
    ''custom_division_names'' \<mapsto> JArr [JStr ''Top Flight'']] ++ example_extra_meta\<rparr>))"
    by (simp add: run_simps get_theme_far_east theme_far_east_fields example_resampled_def
          example_extra_meta_nonempty)
  then show ?thesis
    by (simp only: example_resampled_meta) (simp add: example_resampled_def)
qed

lemma example_loaded_run: "dict_to_pyramid example_lib example_document = Inr example_loaded"
  by (simp add: dict_to_pyramid_def example_document_def bind_sum_def as_list_def as_str_def
        as_dict_def as_opt_str_def division_of_dict_def team_of_dict_def py_int_def
        Pyramid_sort_def example_loaded_def)

section \<open>Determinism\<close>

text \<open>
  C1: for fixed level sizes, theme key, integer seed and custom division names, two calls
  of \<open>generate_pyramid\<close>, whatever the clock and the operating system's entropy at each
  call, return pyramids equal in every field but \<open>generated_at\<close> (or raise the same
  exception, or both fail to return), the remaining arguments being those of the call; the
  divisions, with their names, levels and teams in order, do not depend on the title,
  the description or the extra metadata either.
\<close>

theorem generate_pyramid_deterministic:
  "map_option (map_sum id without_timestamp) (generate_pyramid prng E1 ls k (Some s) t d c x)
     = map_option (map_sum id without_timestamp) (generate_pyramid prng E2 ls k (Some s) t d c x)
   \<and> map_option (map_sum id divisions) (generate_pyramid prng E1 ls k (Some s) t1 d1 c x1)
     = map_option (map_sum id divisions) (generate_pyramid prng E2 ls k (Some s) t2 d2 c x2)"
proof (cases "ls = []")
  case True
  then show ?thesis by (simp add: generate_pyramid_def)
next
  case False
  show ?thesis
  proof (cases "get_theme k")
    case (Inl e)
    with False show ?thesis by (simp add: generate_pyramid_def bind_res_def)
  next
    case (Inr th)
    show ?thesis
    proof (cases "build_divisions th (int (length ls)) c 1 ls (prng s) {}")
      case None
      with False Inr show ?thesis by (simp add: generate_pyramid_def bind_res_def)
    next
      case (Some res)
      with False Inr show ?thesis
        by (cases res)
           (simp_all add: generate_pyramid_def bind_res_def Let_def Pyramid_sort_def
              without_timestamp_def)
    qed
  qed
qed

section \<open>Rejected inputs\<close>

text \<open>
  C2: \<open>generate_pyramid\<close> is claimed to raise ValueError (InvalidInput) whenever
  \<open>level_sizes\<close> is empty or contains a non-positive value. The code checks emptiness
  only: for the level sizes 0 and -1 it returns a pyramid of two divisions without teams.
\<close>

theorem nonpositive_level_sizes_accepted:
  "generate_pyramid example_prng example_env [0, - 1] ''garlemald'' (Some 1) None None None None
     = Some (Inr
         \<lparr>title = ''Imperial Football Pyramid'',
          description = ''Reformed Garlean legions and liberated provinces contest the imperial title.'',
          divisions =
            [\<lparr>level = 1, division.name = ''Imperial Supremacy League'', short_name = Some ''IGL L1'',
              teams = []\<rparr>,
             \<lparr>level = 2, division.name = ''Praetoriate Championship'', short_name = Some ''IGL L2'',
              teams = []\<rparr>],
          meta =
            [''theme'' \<mapsto> JStr ''garlemald'', ''seed'' \<mapsto> JInt 1,
             ''levels'' \<mapsto> JArr [JInt 0, JInt (- 1)],
             ''short_prefix'' \<mapsto> JStr ''IGL'',
             ''generated_using'' \<mapsto> JStr ''ffxiv_pyramid''],
          generated_at = Some ''2024-05-01T12:00:00''\<rparr>)"
  by (simp add: run_simps get_theme_garlemald theme_garlemald_fields)

text \<open>
  C2, as the code has it: \<open>generate_pyramid\<close> raises ValueError exactly when
  \<open>level_sizes\<close> is empty; when it is not empty, holds only non-positive values and the
  theme exists, the call returns a pyramid with one division for each level size and no
  team in any of them.
\<close>

theorem generate_pyramid_invalid_input:
  "(generate_pyramid prng E ls k seed t d c x = Some (Inl ValueError)) = (ls = [])
   \<and> (ls \<noteq> [] \<and> (\<forall>n \<in> set ls. n \<le> 0) \<and> get_theme k = Inr th \<longrightarrow>
        (\<exists>p. generate_pyramid prng E ls k seed t d c x = Some (Inr p)
             \<and> length (divisions p) = length ls
             \<and> (\<forall>dv \<in> set (divisions p). teams dv = [])))"
proof (intro conjI impI)
  show "(generate_pyramid prng E ls k seed t d c x = Some (Inl ValueError)) = (ls = [])"
  proof
    assume "generate_pyramid prng E ls k seed t d c x = Some (Inl ValueError)"
    from generate_pyramid_raises [OF this] show "ls = []" by simp
  next
    assume "ls = []"
    then show "generate_pyramid prng E ls k seed t d c x = Some (Inl ValueError)"
      by (simp add: generate_pyramid_def)
  qed
next
  assume a: "ls \<noteq> [] \<and> (\<forall>n \<in> set ls. n \<le> 0) \<and> get_theme k = Inr th"
  let ?r = "case seed of None \<Rightarrow> entropy E | Some s \<Rightarrow> prng s"
  from a build_divisions_no_teams [of ls 1 th "int (length ls)" c ?r "{}"]
  obtain ds where ds: "build_divisions th (int (length ls)) c 1 ls ?r {} = Some (Inr ds)"
    and empty: "\<forall>dv \<in> set ds. teams dv = []"
    by auto
  from build_divisions_shape [OF ds] have len: "length ds = length ls" by blast
  from a ds obtain p where p: "generate_pyramid prng E ls k seed t d c x = Some (Inr p)"
    by (simp add: generate_pyramid_def bind_res_def Let_def)
  from generate_pyramid_divisions [OF p] a ds
  have "divisions p = map (\<lambda>dv. dv\<lparr>teams := sort_key team.name (teams dv)\<rparr>) ds"
    by auto
  with empty len have "length (divisions p) = length ls \<and> (\<forall>dv \<in> set (divisions p). teams dv = [])"
    by auto
  with p show "\<exists>p. generate_pyramid prng E ls k seed t d c x = Some (Inr p)
             \<and> length (divisions p) = length ls
             \<and> (\<forall>dv \<in> set (divisions p). teams dv = [])"
    by blast
qed

theorem generate_pyramid_invalid_input_witness:
  "generate_pyramid example_prng example_env [] ''garlemald'' (Some 1) None None None None
     = Some (Inl ValueError)
   \<and> (\<exists>p. generate_pyramid example_prng example_env [0, - 1] ''garlemald'' (Some 1) None None None None
            = Some (Inr p)
          \<and> length (divisions p) = 2 \<and> (\<forall>dv \<in> set (divisions p). teams dv = []))"
  using generate_pyramid_invalid_input
          [of example_prng example_env "[]" "''garlemald''" "Some 1" None None None None theme_garlemald]
        generate_pyramid_invalid_input
          [of example_prng example_env "[0, - 1]" "''garlemald''" "Some 1" None None None None
              theme_garlemald]
  by (simp add: get_theme_garlemald numeral_2_eq_2)

section \<open>Round trip through the document\<close>

text \<open>
  C3: for every pyramid \<open>p\<close>, also one whose \<open>short_name\<close>, \<open>notes\<close> or
  \<open>generated_at\<close> are absent, \<open>dict_to_pyramid (pyramid_to_dict p)\<close> is \<open>p\<close> after the
  sort operation, field for field; of the datetime library it is assumed that
  \<open>fromisoformat\<close> inverts \<open>isoformat\<close> and that \<open>isoformat\<close> never yields the empty
  string.
\<close>

theorem roundtrip:
  assumes "\<forall>t. fromisoformat lib (isoformat lib t) = Some t \<and> isoformat lib t \<noteq> []"
  shows "dict_to_pyramid lib (pyramid_to_dict lib p) = Inr (Pyramid_sort p)"
proof -
  have divs: "map_sum_list (division_of_dict lib) (map division_to_dict (divisions p)) = Inr (divisions p)"
    by (rule map_sum_list_Inr) (rule division_roundtrip)
  have "dict_to_pyramid lib (pyramid_to_dict lib p) =
          Inr (Pyramid_sort \<lparr>title = title p, description = description p, divisions = divisions p,
                 meta = meta p, generated_at = generated_at p\<rparr>)"
    using assms
    by (cases "generated_at p")
       (simp_all add: dict_to_pyramid_def pyramid_to_dict_def bind_sum_def as_list_def divs
          truthy_def as_str_def as_dict_def)
  moreover have "\<lparr>title = title p, description = description p, divisions = divisions p,
                   meta = meta p, generated_at = generated_at p\<rparr> = p"
    by (cases p) simp
  ultimately show ?thesis by simp
qed

theorem roundtrip_witness:
  "(\<forall>t. fromisoformat example_lib (isoformat example_lib t) = Some t \<and> isoformat example_lib t \<noteq> [])
   \<and> dict_to_pyramid example_lib (pyramid_to_dict example_lib example_handbuilt)
       = Inr \<lparr>title = ''Cup'', description = [],
               divisions =
                 [\<lparr>level = 1, division.name = ''First'', short_name = Some ''F1'', teams = []\<rparr>,
                  \<lparr>level = 2, division.name = ''Second'', short_name = None,
                   teams = [\<lparr>team.name = ''Alpha'', location = [], inspiration = ''Confederacy'',
                             notes = Some ''Founded later.''\<rparr>,
                            \<lparr>team.name = ''Zeta'', location = ''Doma'', inspiration = [],
                             notes = None\<rparr>]\<rparr>],
               meta = [''seed'' \<mapsto> JNull],
               generated_at = None\<rparr>"
proof -
  have lib: "\<forall>t. fromisoformat example_lib (isoformat example_lib t) = Some t
                 \<and> isoformat example_lib t \<noteq> []"
    by (simp add: example_lib_def)
  from roundtrip [OF lib, of example_handbuilt] lib show ?thesis
    by (simp add: Pyramid_sort_def example_handbuilt_def)
qed

section \<open>Uniqueness of team names\<close>

text \<open>
  C4: in a pyramid returned by \<open>generate_pyramid\<close> no two teams, of whichever
  divisions, have the same name.
\<close>

theorem team_names_unique:
  assumes "generate_pyramid prng E ls k seed t d c x = Some (Inr p)"
  shows "distinct (map team.name (concat (map teams (divisions p))))"
proof -
  from generate_pyramid_divisions [OF assms] obtain th ds where
    ds: "build_divisions th (int (length ls)) c 1 ls
           (case seed of None \<Rightarrow> entropy E | Some s \<Rightarrow> prng s) {} = Some (Inr ds)" and
    p: "divisions p = map (\<lambda>d. d\<lparr>teams := sort_key team.name (teams d)\<rparr>) ds"
    by blast
  from build_divisions_names [OF ds] have "distinct (map team.name (concat (map teams ds)))"
    by blast
  then show ?thesis
    unfolding p by (simp only: sorted_teams_names_distinct)
qed

theorem team_names_unique_witness:
  "generate_pyramid example_prng example_env [1, 1] ''Far-East'' None (Some []) (Some [])
       (Some [''Top Flight'']) (Some example_extra_meta)
     = Some (Inr example_resampled)
   \<and> distinct (map team.name (concat (map teams (divisions example_resampled))))
   \<and> map team.name (concat (map teams (divisions example_resampled)))
       = [''Kugane Sekiseigumi'', ''Kugane Sekiseigumi FC'']"
  using team_names_unique [OF example_resampled_run] example_resampled_run
  by (simp add: example_resampled_def)

section \<open>Order of divisions and teams\<close>

text \<open>
  C5: after generation and after deserialization the division levels are claimed to be
  strictly ascending. A document with two divisions of level 1 is read into a pyramid
  whose levels are 1, 1.
\<close>

theorem duplicate_levels_loaded:
  "dict_to_pyramid example_lib example_document = Inr example_loaded
   \<and> map level (divisions example_loaded) = [1, 1]
   \<and> \<not> sorted_wrt (<) (map level (divisions example_loaded))"
  by (simp add: example_loaded_run) (simp add: example_loaded_def)

text \<open>
  C5, as the code has it: a pyramid returned by \<open>generate_pyramid\<close> has strictly
  ascending division levels; a pyramid returned by \<open>dict_to_pyramid\<close> has its division
  levels in non-decreasing order, strictly ascending exactly when they are pairwise
  distinct; in both, the team names of each division are in non-decreasing lexicographic
  order.
\<close>

theorem divisions_and_teams_sorted:
  "(generate_pyramid prng E ls k seed t d c x = Some (Inr p) \<longrightarrow>
      sorted_wrt (<) (map level (divisions p))
      \<and> (\<forall>dv \<in> set (divisions p). sorted (map team.name (teams dv))))
   \<and> (dict_to_pyramid lib data = Inr q \<longrightarrow>
      sorted (map level (divisions q))
      \<and> (sorted_wrt (<) (map level (divisions q)) = distinct (map level (divisions q)))
      \<and> (\<forall>dv \<in> set (divisions q). sorted (map team.name (teams dv))))"
proof (intro conjI impI)
  assume gen: "generate_pyramid prng E ls k seed t d c x = Some (Inr p)"
  from generate_pyramid_divisions [OF gen] obtain th ds where
    ds: "build_divisions th (int (length ls)) c 1 ls
           (case seed of None \<Rightarrow> entropy E | Some s \<Rightarrow> prng s) {} = Some (Inr ds)" and
    p: "divisions p = map (\<lambda>dv. dv\<lparr>teams := sort_key team.name (teams dv)\<rparr>) ds"
    by blast
  from sort_key_level_generated(2) [OF ds] show "sorted_wrt (<) (map level (divisions p))"
    unfolding p by (simp add: comp_def)
  show "\<forall>dv \<in> set (divisions p). sorted (map team.name (teams dv))"
    unfolding p by simp
next
  assume load: "dict_to_pyramid lib data = Inr q"
  from dict_to_pyramid_returns [OF load] obtain ds where
    q: "divisions q = map (\<lambda>dv. dv\<lparr>teams := sort_key team.name (teams dv)\<rparr>) (sort_key level ds)"
    by blast
  show lv: "sorted (map level (divisions q))"
    unfolding q by (simp add: comp_def)
  show "sorted_wrt (<) (map level (divisions q)) = distinct (map level (divisions q))"
    using lv by (simp add: strict_sorted_iff)
  show "\<forall>dv \<in> set (divisions q). sorted (map team.name (teams dv))"
    unfolding q by simp
qed

theorem divisions_and_teams_sorted_witness:
  "generate_pyramid example_prng example_env [2, 1, 0] ''eorzea'' (Some 14) None None None None
     = Some (Inr example_generated)
   \<and> sorted_wrt (<) (map level (divisions example_generated))
   \<and> map (\<lambda>dv. map team.name (teams dv)) (divisions example_generated)
       = [[''Gridania Seedseers'', ''Labyrinthos Conjurers''], [''Mor Dhona Azure Drakes''], []]
   \<and> dict_to_pyramid example_lib example_document = Inr example_loaded
   \<and> sorted (map level (divisions example_loaded))
   \<and> map (\<lambda>dv. map team.name (teams dv)) (divisions example_loaded) = [[''Adders'', ''Rovers''], []]"
  using divisions_and_teams_sorted
          [of example_prng example_env "[2, 1, 0]" "''eorzea''" "Some 14" None None None None
              example_generated example_lib example_document example_loaded]
        example_generated_run example_loaded_run
  by (simp add: example_generated_def example_loaded_def)

section \<open>Termination\<close>

text \<open>
  C6: \<open>generate_pyramid\<close> is claimed to return for every theme, seed and sequence of
  level sizes. A theme offers at most \<open>name_capacity\<close> names, so a call asking for more
  teams cannot return; with the theme eorzea (capacity 96000) and the single level size
  96001 the call never returns, whatever the generator draws.
\<close>

theorem generate_pyramid_hangs:
  "generate_pyramid prng E [96001] ''eorzea'' seed t d c x = None"
proof (cases "generate_pyramid prng E [96001] ''eorzea'' seed t d c x")
  case None
  then show ?thesis .
next
  case (Some res)
  show ?thesis
  proof (cases res)
    case (Inl e)
    with Some generate_pyramid_raises [of prng E "[96001]" "''eorzea''" seed t d c x e]
    show ?thesis by (simp add: get_theme_eorzea)
  next
    case (Inr p)
    with Some generate_pyramid_capacity [of prng E "[96001]" "''eorzea''" seed t d c x p theme_eorzea]
    show ?thesis
      by (simp add: get_theme_eorzea name_capacity_def theme_eorzea_fields EXTRA_TEAM_SUFFIXES_def)
  qed
qed

section \<open>Division names\<close>

text \<open>
  C7: in a generated pyramid the division at level \<open>L = i + 1\<close> is named by the custom
  name for that position when one was supplied, verbatim; otherwise by the theme's premier
  title at level 1, by its championship title at level 2, and by region name, lower
  division title and \<open>roman (L - 2)\<close>, separated by spaces, from level 3 on, so that
  level 3 without a custom name ends in I.
\<close>

theorem division_names:
  assumes "generate_pyramid prng E ls k seed t d c x = Some (Inr p)"
    and "get_theme k = Inr th"
    and "i < length ls"
  shows "length (divisions p) = length ls
         \<and> level (divisions p ! i) = int i + 1
         \<and> division.name (divisions p ! i) =
             (if (\<exists>cs. c = Some cs \<and> i < length cs) then the c ! i
              else if i = 0 then premier_title th
              else if i = 1 then championship_title th
              else region_name th @ '' '' @ lower_division_title th @ '' '' @ roman (int i - 1))
         \<and> (i = 2 \<and> \<not> (\<exists>cs. c = Some cs \<and> i < length cs) \<longrightarrow>
               division.name (divisions p ! i)
                 = region_name th @ '' '' @ lower_division_title th @ '' I'')"
proof -
  from generate_pyramid_divisions [OF assms(1)] assms(2) obtain ds where
    ds: "build_divisions th (int (length ls)) c 1 ls
           (case seed of None \<Rightarrow> entropy E | Some s \<Rightarrow> prng s) {} = Some (Inr ds)" and
    p: "divisions p = map (\<lambda>dv. dv\<lparr>teams := sort_key team.name (teams dv)\<rparr>) ds"
    by auto
  from build_divisions_shape [OF ds] assms(3)
  have len: "length ds = length ls" and lv: "level (ds ! i) = 1 + int i"
    and nm: "division_name th (1 + int i) (int (length ls)) c = Inr (division.name (ds ! i))"
    by blast+
  have name_eq: "division.name (ds ! i) =
             (if (\<exists>cs. c = Some cs \<and> i < length cs) then the c ! i
              else if i = 0 then premier_title th
              else if i = 1 then championship_title th
              else region_name th @ '' '' @ lower_division_title th @ '' '' @ roman (int i - 1))"
  proof (cases c)
    case None
    with nm show ?thesis
      by (auto simp: division_name_def split: if_splits)
  next
    case (Some cs)
    show ?thesis
    proof (cases "i < length cs")
      case True
      with Some nm show ?thesis
        by (auto simp: division_name_def py_index_def split: if_splits)
    next
      case False
      with Some nm show ?thesis
        by (auto simp: division_name_def split: if_splits)
    qed
  qed
  have one: "roman 1 = ''I''"
    by (simp add: roman_def roman_loop.simps numerals_def)
  from len lv name_eq one assms(3) show ?thesis
    unfolding p by auto
qed

theorem division_names_witness:
  "generate_pyramid example_prng example_env [2, 1, 0] ''eorzea'' (Some 14) None None None None
     = Some (Inr example_generated)
   \<and> get_theme ''eorzea'' = Inr theme_eorzea
   \<and> level (divisions example_generated ! 2) = 3
   \<and> division.name (divisions example_generated ! 2) = ''Eorzean City-State Division I''
   \<and> division.name (divisions example_resampled ! 0) = ''Top Flight''
   \<and> division.name (divisions example_resampled ! 1) = ''Hingan Championship''"
  using division_names [OF example_generated_run get_theme_eorzea, of 2]
        division_names [OF example_resampled_run get_theme_far_east, of 0]
        division_names [OF example_resampled_run get_theme_far_east, of 1]
        example_generated_run get_theme_eorzea
  by (simp add: theme_eorzea_fields theme_far_east_fields roman_def roman_loop.simps numerals_def)

section \<open>Roman numerals\<close>

text \<open>
  C8: the Roman-numeral conversion maps 1 to I, 4 to IV, 9 to IX, 40 to XL and 1994 to
  MCMXCIV.
\<close>

theorem roman_examples:
  "roman 1 = ''I'' \<and> roman 4 = ''IV'' \<and> roman 9 = ''IX'' \<and> roman 40 = ''XL''
     \<and> roman 1994 = ''MCMXCIV''"
  by (simp add: roman_def roman_loop.simps numerals_def)

section \<open>Metadata\<close>

text \<open>
  C9: the \<open>meta\<close> mapping of a generated pyramid holds, for every key of
  \<open>extra_meta\<close>, the value \<open>extra_meta\<close> gives it; for every other key it holds the theme
  key under theme, the seed (null if none was given) under seed, the level sizes under
  levels, the theme's short prefix under short_prefix, the provenance tag ffxiv_pyramid
  under generated_using, the custom division names under custom_division_names exactly
  when some were supplied, and nothing else.
\<close>

theorem meta_contents:
  assumes "generate_pyramid prng E ls k seed t d c x = Some (Inr p)"
    and "get_theme k = Inr th"
  shows "meta p field =
           (case (case x of None \<Rightarrow> None | Some e \<Rightarrow> e field) of
              Some v \<Rightarrow> Some v
            | None \<Rightarrow>
                if field = ''theme'' then Some (JStr (key th))
                else if field = ''seed'' then Some (case seed of None \<Rightarrow> JNull | Some s \<Rightarrow> JInt s)
                else if field = ''levels'' then Some (JArr (map JInt ls))
                else if field = ''short_prefix'' then Some (JStr (short_prefix th))
                else if field = ''generated_using'' then Some (JStr ''ffxiv_pyramid'')
                else if field = ''custom_division_names'' then
                  (case c of
                     None \<Rightarrow> None
                   | Some cs \<Rightarrow> if cs = [] then None else Some (JArr (map JStr cs)))
                else None)"
proof -
  note m = generate_pyramid_meta [OF assms]
  show ?thesis
  proof (cases x)
    case None
    with m show ?thesis
      by (cases c) (simp_all add: Let_def)
  next
    case (Some e)
    with m show ?thesis
      by (cases c; cases "e field") (simp_all add: Let_def map_add_def)
  qed
qed

theorem meta_contents_witness:
  "generate_pyramid example_prng example_env [1, 1] ''Far-East'' None (Some []) (Some [])
       (Some [''Top Flight'']) (Some example_extra_meta)
     = Some (Inr example_resampled)
   \<and> get_theme ''Far-East'' = Inr theme_far_east
   \<and> meta example_resampled ''theme'' = Some (JStr ''far_east'')
   \<and> meta example_resampled ''seed'' = Some (JInt 7)
   \<and> meta example_resampled ''custom_division_names'' = Some (JArr [JStr ''Top Flight''])
   \<and> meta example_resampled ''resampled_from'' = Some (JStr ''old.json'')
   \<and> meta example_generated ''seed'' = Some (JInt 14)
   \<and> meta example_generated ''levels'' = Some (JArr [JInt 2, JInt 1, JInt 0])
   \<and> meta example_generated ''custom_division_names'' = None"
  using meta_contents [OF example_resampled_run get_theme_far_east, of "''theme''"]
        meta_contents [OF example_resampled_run get_theme_far_east, of "''seed''"]
        meta_contents [OF example_resampled_run get_theme_far_east, of "''custom_division_names''"]
        meta_contents [OF example_resampled_run get_theme_far_east, of "''resampled_from''"]
        meta_contents [OF example_generated_run get_theme_eorzea, of "''seed''"]
        meta_contents [OF example_generated_run get_theme_eorzea, of "''levels''"]
        meta_contents [OF example_generated_run get_theme_eorzea, of "''custom_division_names''"]
        example_resampled_run get_theme_far_east
  by (simp add: example_extra_meta_def theme_far_east_fields)

section \<open>Empty title and description\<close>

text \<open>
  C10: the empty string as title or as description is treated as an omitted argument: the
  call returns what it returns with the argument omitted, a pyramid titled with the
  region name followed by Football Pyramid, respectively described by the theme's
  highlight.
\<close>

theorem empty_title_and_description_default:
  "generate_pyramid prng E ls k seed (Some []) d c x = generate_pyramid prng E ls k seed None d c x
   \<and> generate_pyramid prng E ls k seed t (Some []) c x = generate_pyramid prng E ls k seed t None c x
   \<and> (generate_pyramid prng E ls k seed (Some []) d c x = Some (Inr p) \<and> get_theme k = Inr th \<longrightarrow>
        title p = region_name th @ '' Football Pyramid'')
   \<and> (generate_pyramid prng E ls k seed t (Some []) c x = Some (Inr q) \<and> get_theme k = Inr th \<longrightarrow>
        description q = highlight th)"
proof (intro conjI impI)
  show "generate_pyramid prng E ls k seed (Some []) d c x = generate_pyramid prng E ls k seed None d c x"
    by (simp add: generate_pyramid_def)
  show "generate_pyramid prng E ls k seed t (Some []) c x = generate_pyramid prng E ls k seed t None c x"
    by (simp add: generate_pyramid_def)
next
  assume a: "generate_pyramid prng E ls k seed (Some []) d c x = Some (Inr p) \<and> get_theme k = Inr th"
  then have "generate_pyramid prng E ls k seed (Some []) d c x = Some (Inr p)" by simp
  from generate_pyramid_returns [OF this] a show "title p = region_name th @ '' Football Pyramid''"
    by auto
next
  assume a: "generate_pyramid prng E ls k seed t (Some []) c x = Some (Inr q) \<and> get_theme k = Inr th"
  then have "generate_pyramid prng E ls k seed t (Some []) c x = Some (Inr q)" by simp
  from generate_pyramid_returns [OF this] a show "description q = highlight th"
    by auto
qed

theorem empty_title_and_description_default_witness:
  "generate_pyramid example_prng example_env [1, 1] ''Far-East'' None (Some []) (Some [])
       (Some [''Top Flight'']) (Some example_extra_meta)
     = Some (Inr example_resampled)
   \<and> get_theme ''Far-East'' = Inr theme_far_east
   \<and> title example_resampled = ''Far Eastern Football Pyramid''
   \<and> description example_resampled
       = ''The trading ports of Kugane, the rebel lands of Doma, and the wandering Steppe tribes collide.''"
  using empty_title_and_description_default
          [of example_prng example_env "[1, 1]" "''Far-East''" None "Some []" "Some [''Top Flight'']"
              "Some example_extra_meta" "Some []" example_resampled theme_far_east example_resampled]
        example_resampled_run get_theme_far_east
  by (simp add: theme_far_east_fields)

end
